theory Spec2Isabelle
  imports Main "HOL-Library.Word"
begin

unbundle bit_operations_syntax

section \<open>Platform facts and command-line options\<close>

text \<open>
  The pass reads the target through \<open>llvm::Triple\<close> and its flags through
  \<open>cl::opt\<close> objects. Both classes are library types; they are modelled by the
  facts the pass queries: the architecture, the operating-system predicates, and
  for each option its value together with \<open>getNumOccurrences()\<close>.
\<close>

datatype ArchType = x86_64 | aarch64 | aarch64_be | aarch64_32 | riscv64 | UnknownArch

record Triple =
  getArch :: ArchType
  isOSFuchsia :: bool
  isAndroid :: bool
  isAndroidVersionLT30 :: bool
  isOSBinFormatELF :: bool

definition isAArch64 :: "Triple \<Rightarrow> bool" where
  "isAArch64 T = (getArch T = aarch64 \<or> getArch T = aarch64_be \<or> getArch T = aarch64_32)"

definition isRISCV64 :: "Triple \<Rightarrow> bool" where
  "isRISCV64 T = (getArch T = riscv64)"

record 'a cl_opt =
  getNumOccurrences :: nat
  getValue :: 'a

datatype RecordStackHistoryMode = none | instr | libcall

record Options =
  ClInstrumentWithCalls :: "bool cl_opt"
  ClRecover :: "bool cl_opt"
  ClInstrumentStack :: "bool cl_opt"
  ClUseAfterScope :: "bool cl_opt"
  ClGenerateTagsWithCalls :: "bool cl_opt"
  ClGlobals :: "bool cl_opt"
  ClMatchAllTag :: "int cl_opt"
  ClEnableKhwasan :: "bool cl_opt"
  ClMappingOffset :: "64 word cl_opt"
  ClWithIfunc :: "bool cl_opt"
  ClWithTls :: "bool cl_opt"
  ClRecordStackHistory :: "RecordStackHistoryMode cl_opt"
  ClInstrumentLandingPads :: "bool cl_opt"
  ClUseShortGranules :: "bool cl_opt"
  ClInstrumentPersonalityFunctions :: "bool cl_opt"
  ClInlineAllChecks :: "bool cl_opt"
  ClUsePageAliases :: "bool cl_opt"

text \<open>The initial values given by \<open>cl::init\<close>, with no occurrence on the command line.\<close>

definition cl_init :: "'a \<Rightarrow> 'a cl_opt" where
  "cl_init v = \<lparr>getNumOccurrences = 0, getValue = v\<rparr>"

definition DefaultOptions :: Options where
  "DefaultOptions = \<lparr>
     ClInstrumentWithCalls = cl_init False,
     ClRecover = cl_init False,
     ClInstrumentStack = cl_init True,
     ClUseAfterScope = cl_init False,
     ClGenerateTagsWithCalls = cl_init False,
     ClGlobals = cl_init False,
     ClMatchAllTag = cl_init (- 1),
     ClEnableKhwasan = cl_init False,
     ClMappingOffset = cl_init 0,
     ClWithIfunc = cl_init False,
     ClWithTls = cl_init True,
     ClRecordStackHistory = cl_init instr,
     ClInstrumentLandingPads = cl_init False,
     ClUseShortGranules = cl_init False,
     ClInstrumentPersonalityFunctions = cl_init False,
     ClInlineAllChecks = cl_init False,
     ClUsePageAliases = cl_init False\<rparr>"

definition kDefaultShadowScale :: "8 word" where
  "kDefaultShadowScale = 4"

definition kDynamicShadowSentinel :: "64 word" where
  "kDynamicShadowSentinel = - 1"

definition kNumberOfAccessSizes :: nat where
  "kNumberOfAccessSizes = 5"

definition shouldUsePageAliases :: "Options \<Rightarrow> Triple \<Rightarrow> bool" where
  "shouldUsePageAliases opts TargetTriple =
     (getValue (ClUsePageAliases opts) \<and> getArch TargetTriple = x86_64)"

definition shouldInstrumentStack :: "Options \<Rightarrow> Triple \<Rightarrow> bool" where
  "shouldInstrumentStack opts TargetTriple =
     (\<not> shouldUsePageAliases opts TargetTriple \<and> getValue (ClInstrumentStack opts))"

definition shouldInstrumentWithCalls :: "Options \<Rightarrow> Triple \<Rightarrow> bool" where
  "shouldInstrumentWithCalls opts TargetTriple =
     (if getNumOccurrences (ClInstrumentWithCalls opts) \<noteq> 0
      then getValue (ClInstrumentWithCalls opts)
      else getArch TargetTriple = x86_64)"

definition shouldDetectUseAfterScope :: "Options \<Rightarrow> Triple \<Rightarrow> bool" where
  "shouldDetectUseAfterScope opts TargetTriple =
     (getValue (ClUseAfterScope opts) \<and> shouldInstrumentStack opts TargetTriple)"

section \<open>The shadow mapping\<close>

record ShadowMapping =
  Scale :: "8 word"
  Offset :: "64 word"
  InGlobal :: bool
  InTls :: bool
  WithFrameRecord :: bool

text \<open>\<open>ShadowMapping::init\<close>: the six branches in the order of the source.\<close>

definition ShadowMapping_init :: "Options \<Rightarrow> Triple \<Rightarrow> bool \<Rightarrow> ShadowMapping" where
  "ShadowMapping_init opts TargetTriple InstrumentWithCalls' =
     (if isOSFuchsia TargetTriple then
        \<lparr>Scale = kDefaultShadowScale, Offset = 0, InGlobal = False, InTls = False,
         WithFrameRecord = True\<rparr>
      else if getNumOccurrences (ClMappingOffset opts) > 0 then
        \<lparr>Scale = kDefaultShadowScale, Offset = getValue (ClMappingOffset opts),
         InGlobal = False, InTls = False, WithFrameRecord = False\<rparr>
      else if getValue (ClEnableKhwasan opts) \<or> InstrumentWithCalls' then
        \<lparr>Scale = kDefaultShadowScale, Offset = 0, InGlobal = False, InTls = False,
         WithFrameRecord = False\<rparr>
      else if getValue (ClWithIfunc opts) then
        \<lparr>Scale = kDefaultShadowScale, Offset = kDynamicShadowSentinel, InGlobal = True,
         InTls = False, WithFrameRecord = False\<rparr>
      else if getValue (ClWithTls opts) then
        \<lparr>Scale = kDefaultShadowScale, Offset = kDynamicShadowSentinel, InGlobal = False,
         InTls = True, WithFrameRecord = True\<rparr>
      else
        \<lparr>Scale = kDefaultShadowScale, Offset = kDynamicShadowSentinel, InGlobal = False,
         InTls = False, WithFrameRecord = False\<rparr>)"

text \<open>\<open>getObjectAlignment\<close>: the granule size \<open>1 << Scale\<close>, as a 64-bit value.\<close>

definition getObjectAlignment :: "ShadowMapping \<Rightarrow> 64 word" where
  "getObjectAlignment m = push_bit (unat (Scale m)) 1"

section \<open>The sanitizer object\<close>

record HWAddressSanitizer =
  TargetTriple :: Triple
  Mapping :: ShadowMapping
  CompileKernel :: bool
  Recover :: bool
  OutlinedChecks :: bool
  UseShortGranules :: bool
  InstrumentLandingPads :: bool
  InstrumentWithCalls :: bool
  InstrumentStack :: bool
  DetectUseAfterScope :: bool
  UsePageAliases :: bool
  UseMatchAllCallback :: bool
  MatchAllTag :: "8 word option"
  PointerTagShift :: nat
  TagMaskByte :: "64 word"

text \<open>
  The constructor followed by \<open>initializeModule\<close>, as far as they compute the
  fields above. The changes \<open>initializeModule\<close> makes to the module (the
  constructor comdat and note, the tagging of globals, the personality thunks,
  the \<open>__hwasan_tls\<close> declaration) are not part of this function; global tagging
  and the personality thunks are modelled on their own below.
\<close>

definition NewRuntime :: "Triple \<Rightarrow> bool" where
  "NewRuntime T = (\<not> isAndroid T \<or> \<not> isAndroidVersionLT30 T)"

definition initMatchAllTag :: "Options \<Rightarrow> bool \<Rightarrow> 8 word option" where
  "initMatchAllTag opts CompileKernel' =
     (if getNumOccurrences (ClMatchAllTag opts) \<noteq> 0 then
        (if getValue (ClMatchAllTag opts) \<noteq> - 1
         then Some (word_of_int (getValue (ClMatchAllTag opts)) AND 0xFF)
         else None)
      else if CompileKernel' then Some 0xFF
      else None)"

definition initializeModule :: "Options \<Rightarrow> Triple \<Rightarrow> bool \<Rightarrow> bool \<Rightarrow> HWAddressSanitizer" where
  "initializeModule opts T CompileKernelArg RecoverArg =
     (let Recover' = (if getNumOccurrences (ClRecover opts) > 0
                      then getValue (ClRecover opts) else RecoverArg);
          CompileKernel' = (if getNumOccurrences (ClEnableKhwasan opts) > 0
                            then getValue (ClEnableKhwasan opts) else CompileKernelArg);
          IsX86_64 = (getArch T = x86_64);
          InstrumentWithCalls' = shouldInstrumentWithCalls opts T;
          MatchAllTag' = initMatchAllTag opts CompileKernel'
      in \<lparr>TargetTriple = T,
          Mapping = ShadowMapping_init opts T InstrumentWithCalls',
          CompileKernel = CompileKernel',
          Recover = Recover',
          OutlinedChecks =
            ((isAArch64 T \<or> isRISCV64 T) \<and> isOSBinFormatELF T \<and>
             (if getNumOccurrences (ClInlineAllChecks opts) \<noteq> 0
              then \<not> getValue (ClInlineAllChecks opts) else \<not> Recover')),
          UseShortGranules =
            (if getNumOccurrences (ClUseShortGranules opts) \<noteq> 0
             then getValue (ClUseShortGranules opts) else NewRuntime T),
          InstrumentLandingPads =
            (if getNumOccurrences (ClInstrumentLandingPads opts) \<noteq> 0
             then getValue (ClInstrumentLandingPads opts) else \<not> NewRuntime T),
          InstrumentWithCalls = InstrumentWithCalls',
          InstrumentStack = shouldInstrumentStack opts T,
          DetectUseAfterScope = shouldDetectUseAfterScope opts T,
          UsePageAliases = shouldUsePageAliases opts T,
          UseMatchAllCallback = (\<not> CompileKernel' \<and> MatchAllTag' \<noteq> None),
          MatchAllTag = MatchAllTag',
          PointerTagShift = (if IsX86_64 then 57 else 56),
          TagMaskByte = (if IsX86_64 then 0x3F else 0xFF)\<rparr>)"

section \<open>Errors\<close>

text \<open>
  A failed \<open>assert\<close> and \<open>report_fatal_error\<close> end the compilation; they are
  values of the model.
\<close>

datatype error = AssertionFailed | FatalError string

section \<open>Pointer tag codec\<close>

text \<open>
  \<open>tagPointer\<close> and \<open>untagPointer\<close> emit one or two bitwise instructions on the
  pointer-sized integer; the functions below give the value those instructions
  compute from the run-time values of the pointer and the tag.
\<close>

definition tagPointer :: "HWAddressSanitizer \<Rightarrow> 64 word \<Rightarrow> 64 word \<Rightarrow> error + 64 word" where
  "tagPointer hw PtrLong Tag =
     (if UsePageAliases hw then Inl AssertionFailed
      else if CompileKernel hw then
        (let ShiftedTag = push_bit (PointerTagShift hw) Tag OR
                          (push_bit (PointerTagShift hw) 1 - 1)
         in Inr (PtrLong AND ShiftedTag))
      else
        (let ShiftedTag = push_bit (PointerTagShift hw) Tag
         in Inr (PtrLong OR ShiftedTag)))"

definition untagPointer :: "HWAddressSanitizer \<Rightarrow> 64 word \<Rightarrow> error + 64 word" where
  "untagPointer hw PtrLong =
     (if UsePageAliases hw then Inl AssertionFailed
      else if CompileKernel hw then
        Inr (PtrLong OR push_bit (PointerTagShift hw) (TagMaskByte hw))
      else
        Inr (PtrLong AND NOT (push_bit (PointerTagShift hw) (TagMaskByte hw))))"

text \<open>\<open>applyTagMask\<close>: no instruction when the mask is the full byte.\<close>

definition applyTagMask :: "HWAddressSanitizer \<Rightarrow> 64 word \<Rightarrow> 64 word" where
  "applyTagMask hw OldTag =
     (if TagMaskByte hw = 0xFF then OldTag else OldTag AND TagMaskByte hw)"

section \<open>Retag masks\<close>

definition FastMasks :: "32 word list" where
  "FastMasks =
     [0,   128, 64, 192, 32,  96,  224, 112, 240, 48, 16,  120,
      248, 56,  24, 8,   124, 252, 60,  28,  12,  4,  126, 254,
      62,  30,  14, 6,   2,   127, 63,  31,  15,  7,  3,   1]"

text \<open>
  \<open>retagMask\<close>: \<open>AllocaNo\<close> is an \<open>unsigned\<close>; the conjunction with the 64-bit
  \<open>TagMaskByte\<close> is computed in 64 bits and converted back to \<open>unsigned\<close>.
\<close>

definition retagMask :: "HWAddressSanitizer \<Rightarrow> 32 word \<Rightarrow> 32 word" where
  "retagMask hw AllocaNo =
     (if getArch (TargetTriple hw) = x86_64
      then ucast ((ucast AllocaNo :: 64 word) AND TagMaskByte hw)
      else FastMasks ! (unat AllocaNo mod length FastMasks))"


text \<open>
  The tag field of a pointer-sized value: the \<open>TagMaskByte\<close> bits at
  \<open>PointerTagShift\<close>, which are the bits \<open>untagPointer\<close> resets and the bits
  \<open>getUARTag\<close> reads from the stack pointer.
\<close>

definition tagField :: "HWAddressSanitizer \<Rightarrow> 64 word \<Rightarrow> 64 word" where
  "tagField hw x = drop_bit (PointerTagShift hw) x AND TagMaskByte hw"

definition getUARTag :: "HWAddressSanitizer \<Rightarrow> 64 word \<Rightarrow> 64 word" where
  "getUARTag hw StackPointerLong =
     applyTagMask hw (drop_bit (PointerTagShift hw) StackPointerLong)"

text \<open>
  The byte values with at most one run of non-zero bits, as the comment on
  \<open>FastMasks\<close> describes them: zero, and \<open>j\<close> ones starting at bit \<open>i\<close>.
\<close>

definition singleRunBytes :: "32 word list" where
  "singleRunBytes =
     0 # concat (map (\<lambda>i. map (\<lambda>j. push_bit i (mask j)) [1..<9 - i]) [0..<8])"



section \<open>The module\<close>

text \<open>
  The IR classes are library types; they are modelled by the attributes the
  pass reads and writes. A global value is identified by its contents; a module
  lists its global variables in the order of \<open>M.globals()\<close>, where a new
  global variable is appended.
\<close>

datatype LinkageTypes =
    ExternalLinkage | AvailableExternallyLinkage | LinkOnceODRLinkage
  | InternalLinkage | PrivateLinkage | CommonLinkage | OtherLinkage

datatype VisibilityTypes = DefaultVisibility | HiddenVisibility | ProtectedVisibility

text \<open>
  Constants: an initializer of the input module (identified by a number), a
  byte array, an anonymous struct, a 32-bit integer, and the truncated relative
  address \<open>trunc (ptrtoint target - ptrtoint base + addend)\<close> of a descriptor.
\<close>

datatype Constant =
    OriginalInitializer nat
  | ConstantDataArray "8 word list"
  | ConstantStructAnon "Constant list"
  | ConstantInt32 "32 word"
  | RelativeAddress string string "64 word"

record GlobalVariable =
  getName :: string
  getLinkage :: LinkageTypes
  getVisibility :: VisibilityTypes
  getInitializer :: "Constant option"
  isConstant :: bool
  isThreadLocal :: bool
  getSection :: string
  NoHWAddress :: bool
  getAlign :: "nat option"
  hasGlobalUnnamedAddr :: bool
  MD_associated :: "string option"

record GlobalAlias =
  alias_getName :: string
  alias_getLinkage :: LinkageTypes
  alias_getVisibility :: VisibilityTypes
  Aliasee :: "string \<times> 64 word"

record Module =
  getSourceFileName :: string
  globals :: "GlobalVariable list"
  aliases :: "GlobalAlias list"
  compilerUsed :: "string list"

definition startswith :: "string \<Rightarrow> string \<Rightarrow> bool" where
  "startswith s p = (take (length p) s = p)"

definition hasSection :: "GlobalVariable \<Rightarrow> bool" where
  "hasSection GV = (getSection GV \<noteq> [])"

definition hasCommonLinkage :: "GlobalVariable \<Rightarrow> bool" where
  "hasCommonLinkage GV = (getLinkage GV = CommonLinkage)"

text \<open>
  Modelled from the spec: \<open>GlobalValue::isDeclarationForLinker\<close> is not among
  the sources. The specification excludes declarations; a global variable is a
  declaration for the linker when it has no initializer or has
  available-externally linkage.
\<close>

definition isDeclarationForLinker :: "GlobalVariable \<Rightarrow> bool" where
  "isDeclarationForLinker GV =
     (getLinkage GV = AvailableExternallyLinkage \<or> getInitializer GV = None)"

text \<open>
  Modelled from the spec: \<open>alignTo\<close> (llvm/Support/Alignment.h) is not among
  the sources. It rounds a size up to the next multiple of the alignment,
  \<open>ceil(s/g)*g\<close>, in unsigned 64-bit arithmetic.
\<close>

definition alignTo :: "64 word \<Rightarrow> 64 word \<Rightarrow> 64 word" where
  "alignTo Size A = (Size + A - 1) div A * A"

section \<open>Global tagging\<close>

definition MaxDescriptorSize :: nat where
  "MaxDescriptorSize = 0xfffff0"

text \<open>
  The descriptor loop of \<open>instrumentGlobal\<close>: the positions
  \<open>0, MaxDescriptorSize, ...\<close> below \<open>SizeInBytes\<close>. The positions are
  natural numbers: the 64-bit counter of the source cannot wrap for a size
  below \<open>2^64 - MaxDescriptorSize\<close>.
\<close>

function descriptorPositions :: "nat \<Rightarrow> nat \<Rightarrow> nat list" where
  "descriptorPositions DescriptorPos SizeInBytes =
     (if DescriptorPos < SizeInBytes
      then DescriptorPos # descriptorPositions (DescriptorPos + MaxDescriptorSize) SizeInBytes
      else [])"
  by pat_completeness auto
termination
  by (relation "measure (\<lambda>(p, s). s - p)") (auto simp add: MaxDescriptorSize_def)

declare descriptorPositions.simps [simp del]

definition paddedInitializer :: "Constant \<Rightarrow> 64 word \<Rightarrow> 64 word \<Rightarrow> 8 word \<Rightarrow> Constant" where
  "paddedInitializer Initializer SizeInBytes NewSize Tag =
     (if SizeInBytes \<noteq> NewSize
      then ConstantStructAnon
             [Initializer,
              ConstantDataArray (replicate (unat (NewSize - SizeInBytes) - 1) 0 @ [Tag])]
      else Initializer)"

definition NewGV :: "HWAddressSanitizer \<Rightarrow> (Constant \<Rightarrow> 64 word) \<Rightarrow> GlobalVariable \<Rightarrow>
    Constant \<Rightarrow> 8 word \<Rightarrow> GlobalVariable" where
  "NewGV hw getTypeAllocSize GV Initializer Tag =
     (let SizeInBytes = getTypeAllocSize Initializer;
          NewSize = alignTo SizeInBytes (getObjectAlignment (Mapping hw))
      in GV\<lparr>getName := getName GV @ ''.hwasan'',
             getInitializer := Some (paddedInitializer Initializer SizeInBytes NewSize Tag),
             getLinkage := PrivateLinkage,
             getAlign := Some (max (case getAlign GV of None \<Rightarrow> 1 | Some a \<Rightarrow> a)
                                   (unat (getObjectAlignment (Mapping hw)))),
             hasGlobalUnnamedAddr := False\<rparr>)"

definition Descriptor :: "GlobalVariable \<Rightarrow> 64 word \<Rightarrow> 8 word \<Rightarrow> nat \<Rightarrow> GlobalVariable" where
  "Descriptor GV SizeInBytes Tag DescriptorPos =
     (let Size = (word_of_nat (min (unat SizeInBytes - DescriptorPos) MaxDescriptorSize)
                    :: 32 word);
          SizeAndTag = Size OR push_bit 24 (ucast Tag)
      in \<lparr>getName = getName GV @ ''.hwasan.descriptor'',
          getLinkage = PrivateLinkage,
          getVisibility = DefaultVisibility,
          getInitializer = Some (ConstantStructAnon
            [RelativeAddress (getName GV @ ''.hwasan'') (getName GV @ ''.hwasan.descriptor'')
               (word_of_nat DescriptorPos),
             ConstantInt32 SizeAndTag]),
          isConstant = True,
          isThreadLocal = False,
          getSection = ''hwasan_globals'',
          NoHWAddress = False,
          getAlign = None,
          hasGlobalUnnamedAddr = False,
          MD_associated = Some (getName GV @ ''.hwasan'')\<rparr>)"

definition Alias :: "HWAddressSanitizer \<Rightarrow> GlobalVariable \<Rightarrow> 8 word \<Rightarrow> GlobalAlias" where
  "Alias hw GV Tag =
     \<lparr>alias_getName = getName GV,
      alias_getLinkage = getLinkage GV,
      alias_getVisibility = getVisibility GV,
      Aliasee = (getName GV @ ''.hwasan'', push_bit (PointerTagShift hw) (ucast Tag))\<rparr>"

text \<open>
  \<open>instrumentGlobal\<close>: the storage object and the descriptors are appended to
  the module's global variables, the descriptors are added to
  \<open>llvm.compiler.used\<close>, the alias takes the name of the global, and the global
  is erased.
\<close>

definition instrumentGlobal :: "HWAddressSanitizer \<Rightarrow> (Constant \<Rightarrow> 64 word) \<Rightarrow>
    GlobalVariable \<Rightarrow> 8 word \<Rightarrow> Module \<Rightarrow> error + Module" where
  "instrumentGlobal hw getTypeAllocSize GV Tag M =
     (if UsePageAliases hw then Inl AssertionFailed
      else case getInitializer GV of
        None \<Rightarrow> Inl AssertionFailed
      | Some Initializer \<Rightarrow>
          (let SizeInBytes = getTypeAllocSize Initializer;
               Descriptors = map (Descriptor GV SizeInBytes Tag)
                                 (descriptorPositions 0 (unat SizeInBytes))
           in Inr (M\<lparr>globals := removeAll GV
                        (globals M @ [NewGV hw getTypeAllocSize GV Initializer Tag] @ Descriptors),
                      compilerUsed := compilerUsed M @ map getName Descriptors,
                      aliases := aliases M @ [Alias hw GV Tag]\<rparr>)))"

text \<open>The globals that the first loop of \<open>instrumentGlobals\<close> collects.\<close>

definition skipGlobal :: "GlobalVariable \<Rightarrow> bool" where
  "skipGlobal GV =
     (if NoHWAddress GV then True
      else if isDeclarationForLinker GV \<or> startswith (getName GV) ''llvm.'' \<or> isThreadLocal GV
      then True
      else if hasCommonLinkage GV then True
      else if hasSection GV then True
      else False)"

definition collectGlobals :: "Module \<Rightarrow> GlobalVariable list" where
  "collectGlobals M = filter (\<lambda>GV. \<not> skipGlobal GV) (globals M)"

text \<open>
  The second loop: \<open>Tag\<close> is a \<open>uint8_t\<close>; it is reset to 16 before use when
  it is below 16 or above \<open>TagMaskByte\<close>, and incremented (modulo 256) after
  each global.
\<close>

definition resetTag :: "HWAddressSanitizer \<Rightarrow> 8 word \<Rightarrow> 8 word" where
  "resetTag hw Tag = (if Tag < 16 \<or> ucast Tag > TagMaskByte hw then 16 else Tag)"

fun tagGlobals :: "HWAddressSanitizer \<Rightarrow> (Constant \<Rightarrow> 64 word) \<Rightarrow> GlobalVariable list \<Rightarrow>
    8 word \<Rightarrow> Module \<Rightarrow> error + Module" where
  "tagGlobals hw getTypeAllocSize [] Tag M = Inr M"
| "tagGlobals hw getTypeAllocSize (GV # Globals) Tag M =
     (let Tag' = resetTag hw Tag
      in case instrumentGlobal hw getTypeAllocSize GV Tag' M of
           Inl e \<Rightarrow> Inl e
         | Inr M' \<Rightarrow> tagGlobals hw getTypeAllocSize Globals (Tag' + 1) M')"

text \<open>The tags that the loop passes to \<open>instrumentGlobal\<close> for \<open>n\<close> globals.\<close>

fun assignedTags :: "HWAddressSanitizer \<Rightarrow> 8 word \<Rightarrow> nat \<Rightarrow> 8 word list" where
  "assignedTags hw Tag 0 = []"
| "assignedTags hw Tag (Suc n) = resetTag hw Tag # assignedTags hw (resetTag hw Tag + 1) n"

text \<open>
  \<open>instrumentGlobals\<close>. \<open>Hash0\<close> gives the first byte of the MD5 digest of the
  source file name; the hash function itself is a library function.
\<close>

definition instrumentGlobals :: "HWAddressSanitizer \<Rightarrow> (Constant \<Rightarrow> 64 word) \<Rightarrow>
    (string \<Rightarrow> 8 word) \<Rightarrow> Module \<Rightarrow> error + Module" where
  "instrumentGlobals hw getTypeAllocSize Hash0 M =
     (let Globals = collectGlobals M;
          Tag = Hash0 (getSourceFileName M)
      in if TagMaskByte hw < 16 then Inl AssertionFailed
         else tagGlobals hw getTypeAllocSize Globals Tag M)"

text \<open>The global variables that \<open>instrumentGlobal\<close> creates for one global.\<close>

definition newGlobals :: "HWAddressSanitizer \<Rightarrow> (Constant \<Rightarrow> 64 word) \<Rightarrow> GlobalVariable \<Rightarrow>
    8 word \<Rightarrow> GlobalVariable list" where
  "newGlobals hw DL GV Tag =
     (case getInitializer GV of
        None \<Rightarrow> []
      | Some Initializer \<Rightarrow>
          NewGV hw DL GV Initializer Tag #
          map (Descriptor GV (DL Initializer) Tag)
              (descriptorPositions 0 (unat (DL Initializer))))"


section \<open>Generated code and its meaning\<close>

text \<open>
  The pass emits IR. The memory operations it emits are kept as values, with
  the run-time operands (addresses, tags) as 64-bit and 8-bit words, and are
  given their meaning on a byte-addressed memory.
\<close>

type_synonym memory = "64 word \<Rightarrow> 8 word"

datatype MemOp =
    IRMemSet "64 word" "8 word" "64 word"
  | IRStore "8 word" "64 word"

fun execMemOp :: "memory \<Rightarrow> MemOp \<Rightarrow> memory" where
  "execMemOp mem (IRMemSet Ptr Val Len) = (\<lambda>a. if a - Ptr < Len then Val else mem a)"
| "execMemOp mem (IRStore Val Ptr) = mem(Ptr := Val)"

definition execMemOps :: "memory \<Rightarrow> MemOp list \<Rightarrow> memory" where
  "execMemOps mem ops = foldl execMemOp mem ops"

text \<open>
  \<open>memToShadow\<close>: the shadow address of an untagged address; \<open>ShadowBase\<close> is
  the run-time value the prologue computed.
\<close>

definition memToShadow :: "HWAddressSanitizer \<Rightarrow> 64 word \<Rightarrow> 64 word \<Rightarrow> 64 word" where
  "memToShadow hw ShadowBase Mem =
     (let Shadow = drop_bit (unat (Scale (Mapping hw))) Mem
      in if Offset (Mapping hw) = 0 then Shadow else ShadowBase + Shadow)"

text \<open>
  \<open>IRBuilder::CreateConstGEP1_32\<close> takes its index as an \<open>unsigned\<close> and emits
  it as a 32-bit constant, which the address computation sign-extends.
\<close>

definition CreateConstGEP1_32 :: "64 word \<Rightarrow> 64 word \<Rightarrow> 64 word" where
  "CreateConstGEP1_32 Ptr Idx0 = Ptr + scast (ucast Idx0 :: 32 word)"

section \<open>Stack tagging\<close>

text \<open>
  \<open>tagAlloca\<close> emits either a call of the run-time function
  \<open>__hwasan_tag_memory(AI, Tag, AlignedSize)\<close> or stores into shadow memory and
  into the allocation. \<open>AI\<close> is the address of the allocation and \<open>Tag\<close> the
  pointer-sized tag value.
\<close>

datatype TagAllocaCode =
    CallTagMemoryFunc "64 word" "8 word" "64 word"
  | InlineStores "MemOp list"

definition tagAlloca :: "HWAddressSanitizer \<Rightarrow> 64 word \<Rightarrow> 64 word \<Rightarrow> 64 word \<Rightarrow> 64 word \<Rightarrow>
    error + TagAllocaCode" where
  "tagAlloca hw ShadowBase AI Tag Size =
     (let AlignedSize = alignTo Size (getObjectAlignment (Mapping hw));
          Size' = (if \<not> UseShortGranules hw then AlignedSize else Size);
          Tag8 = (ucast Tag :: 8 word)
      in if InstrumentWithCalls hw then Inr (CallTagMemoryFunc AI Tag8 AlignedSize)
         else
           (let ShadowSize = drop_bit (unat (Scale (Mapping hw))) Size'
            in case untagPointer hw AI of
                 Inl e \<Rightarrow> Inl e
               | Inr AddrLong \<Rightarrow>
                   (let ShadowPtr = memToShadow hw ShadowBase AddrLong
                    in Inr (InlineStores
                         ((if ShadowSize \<noteq> 0 then [IRMemSet ShadowPtr Tag8 ShadowSize] else []) @
                          (if Size' \<noteq> AlignedSize then
                             (let SizeRemainder =
                                    (ucast (Size' mod getObjectAlignment (Mapping hw)) :: 8 word)
                              in [IRStore SizeRemainder (CreateConstGEP1_32 ShadowPtr ShadowSize),
                                  IRStore Tag8 (CreateConstGEP1_32 AI (AlignedSize - 1))])
                           else []))))))"

text \<open>
  \<open>getAllocaTag\<close>: the tag of allocation \<open>AllocaNo\<close> from the stack base tag;
  with \<open>ClGenerateTagsWithCalls\<close> the tag is the result \<open>CallResult\<close> of the
  run-time call \<open>__hwasan_generate_tag\<close>, zero-extended.
\<close>

definition getAllocaTag :: "HWAddressSanitizer \<Rightarrow> Options \<Rightarrow> 8 word \<Rightarrow> 64 word \<Rightarrow> 32 word \<Rightarrow>
    64 word" where
  "getAllocaTag hw opts CallResult StackTag AllocaNo =
     (if getValue (ClGenerateTagsWithCalls opts) then ucast CallResult
      else StackTag XOR ucast (retagMask hw AllocaNo))"

section \<open>Access checks\<close>

text \<open>
  The bit positions of the \<open>HWASanAccessInfo\<close> namespace are declared in a
  header that is not among the sources; they are a parameter.
\<close>

record HWASanAccessInfo =
  AccessSizeShift :: nat
  IsWriteShift :: nat
  RecoverShift :: nat
  MatchAllShift :: nat
  HasMatchAllShift :: nat
  CompileKernelShift :: nat
  RuntimeMask :: int

definition getAccessInfo :: "HWAddressSanitizer \<Rightarrow> HWASanAccessInfo \<Rightarrow> bool \<Rightarrow> nat \<Rightarrow> int" where
  "getAccessInfo hw L isWrite AccessSizeIndex =
     push_bit (CompileKernelShift L) (of_bool (CompileKernel hw)) OR
     push_bit (HasMatchAllShift L) (of_bool (MatchAllTag hw \<noteq> None)) OR
     push_bit (MatchAllShift L) (case MatchAllTag hw of None \<Rightarrow> 0 | Some m \<Rightarrow> uint m) OR
     push_bit (RecoverShift L) (of_bool (Recover hw)) OR
     push_bit (IsWriteShift L) (of_bool isWrite) OR
     push_bit (AccessSizeShift L) (int AccessSizeIndex)"

text \<open>The trap instruction of the fault block, with its immediate.\<close>

datatype InlineAsm = Int3Nopl int | Brk int | EbreakAddiw int

definition trapAsm :: "HWAddressSanitizer \<Rightarrow> HWASanAccessInfo \<Rightarrow> int \<Rightarrow> error + InlineAsm" where
  "trapAsm hw L AccessInfo =
     (case getArch (TargetTriple hw) of
        x86_64 \<Rightarrow> Inr (Int3Nopl (0x40 + (AccessInfo AND RuntimeMask L)))
      | aarch64 \<Rightarrow> Inr (Brk (0x900 + (AccessInfo AND RuntimeMask L)))
      | aarch64_be \<Rightarrow> Inr (Brk (0x900 + (AccessInfo AND RuntimeMask L)))
      | riscv64 \<Rightarrow> Inr (EbreakAddiw (0x40 + (AccessInfo AND RuntimeMask L)))
      | _ \<Rightarrow> Inl (FatalError ''unsupported architecture''))"

text \<open>
  What the inline check does at run time: it passes, or it executes the trap;
  after the trap execution resumes in recover mode and ends otherwise.
\<close>

datatype CheckOutcome = NoFault | Trap InlineAsm bool

text \<open>
  \<open>instrumentMemAccessInline\<close>. The first three arguments after the layout are
  fixed when the check is emitted; \<open>mem\<close>, \<open>ShadowBase\<close> and \<open>PtrLong\<close> are the
  memory, the shadow base and the pointer when the emitted blocks run. The
  blocks are those of the source: the tag comparison, the test for a
  short-granule value, the bounds test, the comparison with the tag in the last
  byte of the granule, and the fault block.
\<close>

definition instrumentMemAccessInline :: "HWAddressSanitizer \<Rightarrow> HWASanAccessInfo \<Rightarrow> bool \<Rightarrow> nat \<Rightarrow>
    memory \<Rightarrow> 64 word \<Rightarrow> 64 word \<Rightarrow> error + CheckOutcome" where
  "instrumentMemAccessInline hw L isWrite AccessSizeIndex mem ShadowBase PtrLong =
     (if UsePageAliases hw then Inl AssertionFailed
      else
        (let AccessInfo = getAccessInfo hw L isWrite AccessSizeIndex;
             PtrTag = (ucast (drop_bit (PointerTagShift hw) PtrLong) :: 8 word)
         in case untagPointer hw PtrLong of
              Inl e \<Rightarrow> Inl e
            | Inr AddrLong \<Rightarrow>
                (let Shadow = memToShadow hw ShadowBase AddrLong;
                     MemTag = mem Shadow;
                     TagMismatch =
                       (PtrTag \<noteq> MemTag \<and>
                        (case MatchAllTag hw of None \<Rightarrow> True | Some m \<Rightarrow> PtrTag \<noteq> m));
                     OutOfShortGranuleTagRange = (MemTag > 15);
                     PtrLowBits = (ucast (PtrLong AND 15) :: 8 word) +
                                  word_of_int (2 ^ AccessSizeIndex - 1);
                     PtrLowBitsOOB = (PtrLowBits \<ge> MemTag);
                     InlineTag = mem (AddrLong OR 15);
                     InlineTagMismatch = (PtrTag \<noteq> InlineTag)
                 in case trapAsm hw L AccessInfo of
                      Inl e \<Rightarrow> Inl e
                    | Inr Asm \<Rightarrow>
                        Inr (if TagMismatch then
                               (if OutOfShortGranuleTagRange then Trap Asm (Recover hw)
                                else if PtrLowBitsOOB then Trap Asm (Recover hw)
                                else if InlineTagMismatch then Trap Asm (Recover hw)
                                else NoFault)
                             else NoFault))))"

text \<open>What \<open>instrumentMemAccess\<close> inserts before an access.\<close>

datatype Instrumentation =
    CallMemoryAccessCallback bool nat "8 word option"
  | CallMemoryAccessCallbackSized bool "64 word" "8 word option"
  | CallCheckMemaccess bool int
  | InlineCheck bool nat InlineAsm
  | UntaggedPointerOperand

datatype InsnKind = LoadInst | StoreInst | AtomicRMWInst | AtomicCmpXchgInst | CallInst

record InterestingMemoryOperand =
  getInsn :: InsnKind
  IsWrite :: bool
  TypeStoreSize :: "64 word"
  isScalable :: bool
  Alignment :: "64 word option"
  MaybeMask :: "nat option"

definition isPowerOf2_64 :: "64 word \<Rightarrow> bool" where
  "isPowerOf2_64 Value = (Value \<noteq> 0 \<and> Value AND (Value - 1) = 0)"

definition countr_zero :: "32 word \<Rightarrow> nat" where
  "countr_zero x = length (takeWhile (\<lambda>i. \<not> bit x i) [0..<32])"

definition TypeSizeToSizeIndex :: "32 word \<Rightarrow> error + nat" where
  "TypeSizeToSizeIndex TypeSize =
     (let Res = countr_zero (TypeSize div 8)
      in if Res < kNumberOfAccessSizes then Inr Res else Inl AssertionFailed)"

definition instrumentMemAccessOutline :: "HWAddressSanitizer \<Rightarrow> HWASanAccessInfo \<Rightarrow> bool \<Rightarrow> nat \<Rightarrow>
    error + Instrumentation list" where
  "instrumentMemAccessOutline hw L isWrite AccessSizeIndex =
     (if UsePageAliases hw then Inl AssertionFailed
      else Inr [CallCheckMemaccess (UseShortGranules hw)
                  (getAccessInfo hw L isWrite AccessSizeIndex)])"

text \<open>The instructions that \<open>instrumentMemAccessInline\<close> emits, as one item.\<close>

definition emitMemAccessInline :: "HWAddressSanitizer \<Rightarrow> HWASanAccessInfo \<Rightarrow> bool \<Rightarrow> nat \<Rightarrow>
    error + Instrumentation list" where
  "emitMemAccessInline hw L isWrite AccessSizeIndex =
     (if UsePageAliases hw then Inl AssertionFailed
      else case trapAsm hw L (getAccessInfo hw L isWrite AccessSizeIndex) of
             Inl e \<Rightarrow> Inl e
           | Inr Asm \<Rightarrow> Inr [InlineCheck isWrite AccessSizeIndex Asm])"

definition untagPointerOperand :: "HWAddressSanitizer \<Rightarrow> InsnKind \<Rightarrow> error + Instrumentation list" where
  "untagPointerOperand hw I =
     (if isAArch64 (TargetTriple hw) \<or> getArch (TargetTriple hw) = x86_64 \<or>
         isRISCV64 (TargetTriple hw)
      then Inr []
      else if UsePageAliases hw then Inl AssertionFailed
      else if I = CallInst then Inl (FatalError ''Unexpected instruction'')
      else Inr [UntaggedPointerOperand])"

definition instrumentMemAccess :: "HWAddressSanitizer \<Rightarrow> HWASanAccessInfo \<Rightarrow>
    InterestingMemoryOperand \<Rightarrow> error + bool \<times> Instrumentation list" where
  "instrumentMemAccess hw L O' =
     (if MaybeMask O' \<noteq> None then Inr (False, [])
      else
        (let check =
           (if \<not> isScalable O' \<and> isPowerOf2_64 (TypeStoreSize O') \<and>
               TypeStoreSize O' div 8 \<le> push_bit (kNumberOfAccessSizes - 1) 1 \<and>
               (case Alignment O' of
                  None \<Rightarrow> True
                | Some A \<Rightarrow> A \<ge> getObjectAlignment (Mapping hw) \<or> A \<ge> TypeStoreSize O' div 8)
            then
              (case TypeSizeToSizeIndex (ucast (TypeStoreSize O')) of
                 Inl e \<Rightarrow> Inl e
               | Inr AccessSizeIndex \<Rightarrow>
                   if InstrumentWithCalls hw then
                     Inr [CallMemoryAccessCallback (IsWrite O') AccessSizeIndex
                            (if UseMatchAllCallback hw then MatchAllTag hw else None)]
                   else if OutlinedChecks hw then
                     instrumentMemAccessOutline hw L (IsWrite O') AccessSizeIndex
                   else emitMemAccessInline hw L (IsWrite O') AccessSizeIndex)
            else
              Inr [CallMemoryAccessCallbackSized (IsWrite O') (TypeStoreSize O' div 8)
                     (if UseMatchAllCallback hw then MatchAllTag hw else None)])
         in case check of
              Inl e \<Rightarrow> Inl e
            | Inr emitted \<Rightarrow>
                (case untagPointerOperand hw (getInsn O') of
                   Inl e \<Rightarrow> Inl e
                 | Inr untag \<Rightarrow> Inr (True, emitted @ untag))))"

section \<open>Functions and personality thunks\<close>

text \<open>
  A function of the module, by the attributes the pass reads. The personality
  is the personality constant after \<open>stripPointerCasts\<close>: its name, whether it
  is a global value and whether it has local linkage. The body is a list of
  instructions; those of the input are opaque.
\<close>

datatype PersonalityFn = PersonalityFn string bool bool

fun personalityName :: "PersonalityFn \<Rightarrow> string" where
  "personalityName (PersonalityFn n g l) = n"

fun personalityIsLocal :: "PersonalityFn \<Rightarrow> bool" where
  "personalityIsLocal (PersonalityFn n g l) = (\<not> g \<or> l)"

datatype Instruction =
    OriginalInstruction nat
  | TailCallPersonalityWrapper "PersonalityFn option"
  | RetInst

record Function =
  fn_getName :: string
  fn_getLinkage :: LinkageTypes
  fn_getVisibility :: VisibilityTypes
  fn_getComdat :: "string option"
  hasSanitizeHWAddress :: bool
  hasNoUnwind :: bool
  isDeclaration :: bool
  getPersonalityFn :: "PersonalityFn option"
  body :: "Instruction list"

definition kHwasanPersonalityThunkName :: string where
  "kHwasanPersonalityThunkName = ''__hwasan_personality_thunk''"

text \<open>
  \<open>PersonalityFns\<close> is a \<open>MapVector\<close> from the personality (or none) to the
  functions that use it, in insertion order; a function is identified by its
  position in the module. \<open>push_back\<close> is \<open>PersonalityFns[key].push_back(F)\<close>.
\<close>

type_synonym PersonalityMap = "(PersonalityFn option \<times> nat list) list"

fun push_back :: "PersonalityFn option \<Rightarrow> nat \<Rightarrow> PersonalityMap \<Rightarrow> PersonalityMap" where
  "push_back k i [] = [(k, [i])]"
| "push_back k i ((k', is) # m) =
     (if k = k' then (k', is @ [i]) # m else (k', is) # push_back k i m)"

text \<open>The first loop of \<open>instrumentPersonalityFunctions\<close>, from position \<open>i\<close>.\<close>

fun groupByPersonality :: "nat \<Rightarrow> Function list \<Rightarrow> PersonalityMap \<Rightarrow> PersonalityMap" where
  "groupByPersonality i [] PersonalityFns = PersonalityFns"
| "groupByPersonality i (F # Fs) PersonalityFns =
     groupByPersonality (Suc i) Fs
       (if isDeclaration F \<or> \<not> hasSanitizeHWAddress F then PersonalityFns
        else if getPersonalityFn F \<noteq> None then push_back (getPersonalityFn F) i PersonalityFns
        else if \<not> hasNoUnwind F then push_back None i PersonalityFns
        else PersonalityFns)"

text \<open>\<open>M.getOrInsertFunction\<close>: a declaration is appended unless the name exists.\<close>

definition getOrInsertFunction :: "string \<Rightarrow> Function list \<Rightarrow> Function list" where
  "getOrInsertFunction name fs =
     (if name \<in> set (map fn_getName fs) then fs
      else fs @ [\<lparr>fn_getName = name, fn_getLinkage = ExternalLinkage,
                  fn_getVisibility = DefaultVisibility, fn_getComdat = None,
                  hasSanitizeHWAddress = False, hasNoUnwind = False, isDeclaration = True,
                  getPersonalityFn = None, body = []\<rparr>])"

definition ThunkFn :: "PersonalityFn option \<Rightarrow> Function" where
  "ThunkFn P =
     (let ThunkName = kHwasanPersonalityThunkName @
            (case P of None \<Rightarrow> [] | Some p \<Rightarrow> ''.'' @ personalityName p);
          IsLocal = (case P of None \<Rightarrow> False | Some p \<Rightarrow> personalityIsLocal p)
      in \<lparr>fn_getName = ThunkName,
          fn_getLinkage = (if IsLocal then InternalLinkage else LinkOnceODRLinkage),
          fn_getVisibility = (if IsLocal then DefaultVisibility else HiddenVisibility),
          fn_getComdat = (if IsLocal then None else Some ThunkName),
          hasSanitizeHWAddress = False, hasNoUnwind = False, isDeclaration = False,
          getPersonalityFn = None,
          body = [TailCallPersonalityWrapper P, RetInst]\<rparr>)"

text \<open>The thunk as a personality constant: a global value with the thunk's linkage.\<close>

definition ThunkRef :: "PersonalityFn option \<Rightarrow> PersonalityFn" where
  "ThunkRef P = PersonalityFn (fn_getName (ThunkFn P)) True
     (fn_getLinkage (ThunkFn P) = InternalLinkage)"

text \<open>\<open>for (Function *F : P.second) F->setPersonalityFn(ThunkFn)\<close>.\<close>

fun setPersonalityFns :: "PersonalityFn \<Rightarrow> nat list \<Rightarrow> Function list \<Rightarrow> Function list" where
  "setPersonalityFns T [] fs = fs"
| "setPersonalityFns T (i # is) fs =
     setPersonalityFns T is (fs[i := (fs ! i)\<lparr>getPersonalityFn := Some T\<rparr>])"

text \<open>
  The second loop: for each entry of the map a thunk is created in the module
  and installed as the personality of the entry's functions.
\<close>

fun installThunks :: "PersonalityMap \<Rightarrow> Function list \<Rightarrow> Function list" where
  "installThunks [] fs = fs"
| "installThunks ((P, Fs) # PersonalityFns) fs =
     installThunks PersonalityFns (setPersonalityFns (ThunkRef P) Fs (fs @ [ThunkFn P]))"

definition instrumentPersonalityFunctions :: "Function list \<Rightarrow> Function list" where
  "instrumentPersonalityFunctions fs =
     (let PersonalityFns = groupByPersonality 0 fs []
      in if PersonalityFns = [] then fs
         else installThunks PersonalityFns
                (getOrInsertFunction ''_Unwind_GetCFA''
                  (getOrInsertFunction ''_Unwind_GetGR''
                    (getOrInsertFunction ''__hwasan_personality_wrapper'' fs))))"

text \<open>
  \<open>sanitizeFunction\<close>: the two early returns, and then the instrumentation of
  the function (the collection of operands and allocations, the prologue, the
  stack and access instrumentation), which is the parameter \<open>instrument\<close>.
  \<open>HwasanCtorFunction\<close> is the module constructor the pass created, if any;
  functions are compared by name, which is unique in a module.
\<close>

definition sanitizeFunction :: "(Function \<Rightarrow> Function) \<Rightarrow> string option \<Rightarrow> Function \<Rightarrow> Function" where
  "sanitizeFunction instrument HwasanCtorFunction F =
     (if Some (fn_getName F) = HwasanCtorFunction then F
      else if \<not> hasSanitizeHWAddress F then F
      else instrument F)"

text \<open>
  The pass on the functions of a module: \<open>initializeModule\<close> installs the
  personality thunks when it is asked to, and \<open>run\<close> then visits every
  function of the module.
\<close>

definition InstrumentPersonalityFunctions :: "Options \<Rightarrow> Triple \<Rightarrow> bool \<Rightarrow> bool" where
  "InstrumentPersonalityFunctions opts T CompileKernel' =
     (\<not> CompileKernel' \<and>
      (if getNumOccurrences (ClInstrumentPersonalityFunctions opts) \<noteq> 0
       then getValue (ClInstrumentPersonalityFunctions opts) else NewRuntime T))"

definition run :: "(Function \<Rightarrow> Function) \<Rightarrow> string option \<Rightarrow> bool \<Rightarrow> Function list \<Rightarrow>
    Function list" where
  "run instrument HwasanCtorFunction personality fs =
     map (sanitizeFunction instrument HwasanCtorFunction)
       (if personality then instrumentPersonalityFunctions fs else fs)"

text \<open>Two functions that differ at most in their personality.\<close>

definition sameExceptPersonality :: "Function \<Rightarrow> Function \<Rightarrow> bool" where
  "sameExceptPersonality F G =
     (G\<lparr>getPersonalityFn := None\<rparr> = F\<lparr>getPersonalityFn := None\<rparr>)"

text \<open>Every function recorded in the map is in the module and carries the attribute.\<close>

definition attributed :: "Function list \<Rightarrow> PersonalityMap \<Rightarrow> bool" where
  "attributed fs m = (\<forall>e\<in>set m. \<forall>j\<in>set (snd e). j < length fs \<and> hasSanitizeHWAddress (fs ! j))"

section \<open>Concrete targets and option sets\<close>

definition AArch64Linux :: Triple where
  "AArch64Linux = \<lparr>getArch = aarch64, isOSFuchsia = False, isAndroid = False,
     isAndroidVersionLT30 = False, isOSBinFormatELF = True\<rparr>"

definition X86_64Linux :: Triple where
  "X86_64Linux = \<lparr>getArch = x86_64, isOSFuchsia = False, isAndroid = False,
     isAndroidVersionLT30 = False, isOSBinFormatELF = True\<rparr>"






definition hwAArch64 :: HWAddressSanitizer where
  "hwAArch64 = initializeModule DefaultOptions AArch64Linux False False"

definition hwX86_64 :: HWAddressSanitizer where
  "hwX86_64 = initializeModule DefaultOptions X86_64Linux False False"

definition OptsNoShortGranules :: Options where
  "OptsNoShortGranules = DefaultOptions
     \<lparr>ClUseShortGranules := \<lparr>getNumOccurrences = 1, getValue = False\<rparr>\<rparr>"

definition hwNoShortGranules :: HWAddressSanitizer where
  "hwNoShortGranules = initializeModule OptsNoShortGranules AArch64Linux False False"

definition OptsInline :: Options where
  "OptsInline = DefaultOptions
     \<lparr>ClInlineAllChecks := \<lparr>getNumOccurrences = 1, getValue = True\<rparr>\<rparr>"

definition OptsInlineMatchAll :: Options where
  "OptsInlineMatchAll = DefaultOptions
     \<lparr>ClInlineAllChecks := \<lparr>getNumOccurrences = 1, getValue = True\<rparr>,
      ClMatchAllTag := \<lparr>getNumOccurrences = 1, getValue = 0xFF\<rparr>\<rparr>"

definition hwInline :: HWAddressSanitizer where
  "hwInline = initializeModule OptsInline AArch64Linux False False"

definition hwInlineMatchAll :: HWAddressSanitizer where
  "hwInlineMatchAll = initializeModule OptsInlineMatchAll AArch64Linux False False"

text \<open>A layout of the access-info word for the concrete runs.\<close>

definition SampleAccessInfo :: HWASanAccessInfo where
  "SampleAccessInfo = \<lparr>AccessSizeShift = 0, IsWriteShift = 4, RecoverShift = 5,
     MatchAllShift = 16, HasMatchAllShift = 24, CompileKernelShift = 25,
     RuntimeMask = 0xffff\<rparr>"

text \<open>A memory whose shadow byte at 0x100700 holds the short-granule value 5.\<close>

definition ShortGranuleMemory :: memory where
  "ShortGranuleMemory = (\<lambda>_. 0)(0x100700 := 5)"

definition MaskedLoad :: InterestingMemoryOperand where
  "MaskedLoad = \<lparr>getInsn = LoadInst, IsWrite = False, TypeStoreSize = 128,
     isScalable = False, Alignment = Some 16, MaybeMask = Some 0\<rparr>"

section \<open>A sample module\<close>

definition GlobalA :: GlobalVariable where
  "GlobalA = \<lparr>getName = ''a'', getLinkage = ExternalLinkage,
     getVisibility = DefaultVisibility, getInitializer = Some (OriginalInitializer 0),
     isConstant = False, isThreadLocal = False, getSection = [], NoHWAddress = False,
     getAlign = None, hasGlobalUnnamedAddr = False, MD_associated = None\<rparr>"

definition GlobalB :: GlobalVariable where
  "GlobalB = GlobalA\<lparr>getName := ''b'', getInitializer := Some (OriginalInitializer 1)\<rparr>"

definition GlobalC :: GlobalVariable where
  "GlobalC = GlobalA\<lparr>getName := ''c'', getInitializer := Some (OriginalInitializer 2)\<rparr>"

definition GlobalDecl :: GlobalVariable where
  "GlobalDecl = GlobalA\<lparr>getName := ''d'', getInitializer := None\<rparr>"

definition ModuleABC :: Module where
  "ModuleABC = \<lparr>getSourceFileName = ''abc.c'',
     globals = [GlobalA, GlobalDecl, GlobalB, GlobalC], aliases = [], compilerUsed = []\<rparr>"




section \<open>Sample functions\<close>

definition kHwasanModuleCtorName :: string where
  "kHwasanModuleCtorName = ''hwasan.module_ctor''"

definition GxxPersonality :: PersonalityFn where
  "GxxPersonality = PersonalityFn ''__gxx_personality_v0'' True False"

definition PlainFunction :: Function where
  "PlainFunction = \<lparr>fn_getName = ''plain'', fn_getLinkage = ExternalLinkage,
     fn_getVisibility = DefaultVisibility, fn_getComdat = None,
     hasSanitizeHWAddress = False, hasNoUnwind = False, isDeclaration = False,
     getPersonalityFn = Some GxxPersonality,
     body = [OriginalInstruction 0, OriginalInstruction 1]\<rparr>"

definition SanitizedFunction :: Function where
  "SanitizedFunction = PlainFunction\<lparr>fn_getName := ''sanitized'', hasSanitizeHWAddress := True\<rparr>"

definition CtorFunction :: Function where
  "CtorFunction = PlainFunction\<lparr>fn_getName := kHwasanModuleCtorName, hasNoUnwind := True,
     getPersonalityFn := None, body := [OriginalInstruction 2]\<rparr>"

definition SampleFunctions :: "Function list" where
  "SampleFunctions = [PlainFunction, SanitizedFunction, CtorFunction]"

text \<open>An instrumentation that marks the function it is applied to.\<close>

definition markBody :: "Function \<Rightarrow> Function" where
  "markBody F = F\<lparr>body := OriginalInstruction 99 # body F\<rparr>"

section \<open>Verification\<close>

subsection \<open>Bitwise facts\<close>

lemma ff_mask: "(0xFF :: 64 word) = mask 8" "(0x3F :: 64 word) = mask 6"
  by (simp_all add: mask_eq_exp_minus_1)

lemma low_mask: "push_bit s (1::64 word) - 1 = mask s"
  by (simp add: mask_eq_exp_minus_1 push_bit_eq_mult)

lemma user56:
  "((p::64 word) OR push_bit 56 t) AND NOT (push_bit 56 (mask 8)) =
   p AND NOT (push_bit 56 (mask 8))"
  by (rule bit_word_eqI) (auto simp add: bit_simps)

lemma kern56:
  "((p::64 word) AND (push_bit 56 t OR mask 56)) OR push_bit 56 (mask 8) =
   p OR push_bit 56 (mask 8)"
  by (rule bit_word_eqI) (auto simp add: bit_simps)

lemma le63: "(t::64 word) \<le> 0x3F \<Longrightarrow> t AND mask 6 = t"
  by (rule less_mask_eq) (simp add: word_less_nat_alt word_le_nat_alt)

lemma user57_masked:
  "((p::64 word) OR push_bit 57 (t AND mask 6)) AND NOT (push_bit 57 (mask 6)) =
   p AND NOT (push_bit 57 (mask 6))"
  by (rule bit_word_eqI) (auto simp add: bit_simps)

lemma user57:
  "t \<le> 0x3F \<Longrightarrow>
   ((p::64 word) OR push_bit 57 t) AND NOT (push_bit 57 (mask 6)) =
   p AND NOT (push_bit 57 (mask 6))"
  using user57_masked [of p t] le63 [of t] by simp

lemma field_user56:
  "drop_bit 56 (((p::64 word) AND NOT (push_bit 56 (mask 8))) OR push_bit 56 t) AND mask 8 =
   t AND mask 8"
  by (rule bit_word_eqI) (auto simp add: bit_simps)

lemma field_kern56:
  "drop_bit 56 (((p::64 word) OR push_bit 56 (mask 8)) AND (push_bit 56 t OR mask 56))
     AND mask 8 = t AND mask 8"
  by (rule bit_word_eqI) (auto simp add: bit_simps)

lemma field_user57:
  "drop_bit 57 (((p::64 word) AND NOT (push_bit 57 (mask 6))) OR push_bit 57 t) AND mask 6 =
   t AND mask 6"
  by (rule bit_word_eqI) (auto simp add: bit_simps)

lemma field_kern57:
  "drop_bit 57 (((p::64 word) OR push_bit 57 (mask 6)) AND (push_bit 57 t OR mask 57))
     AND mask 6 = t AND mask 6"
  by (rule bit_word_eqI) (auto simp add: bit_simps)

lemma unat_and_mask_mod: "unat ((t::64 word) AND mask w) = unat t mod 2 ^ w"
  by (metis take_bit_eq_mask unsigned_take_bit_eq take_bit_eq_mod)

subsection \<open>The fields computed by module initialisation\<close>

lemma shift_mask_cases:
  "(PointerTagShift (initializeModule opts T ck rc) = 57 \<and>
    TagMaskByte (initializeModule opts T ck rc) = 0x3F \<and> getArch T = x86_64) \<or>
   (PointerTagShift (initializeModule opts T ck rc) = 56 \<and>
    TagMaskByte (initializeModule opts T ck rc) = 0xFF \<and> getArch T \<noteq> x86_64)"
  by (simp add: initializeModule_def Let_def)

lemma TargetTriple_initializeModule:
  "TargetTriple (initializeModule opts T ck rc) = T"
  by (simp add: initializeModule_def Let_def)

lemma hwX86_64_simps:
  "UsePageAliases hwX86_64 = False" "CompileKernel hwX86_64 = False"
  "PointerTagShift hwX86_64 = 57" "TagMaskByte hwX86_64 = 0x3F"
  "getArch (TargetTriple hwX86_64) = x86_64"
  by (simp_all add: hwX86_64_def initializeModule_def Let_def X86_64Linux_def
      DefaultOptions_def cl_init_def shouldUsePageAliases_def)

lemma hwAArch64_simps:
  "UsePageAliases hwAArch64 = False" "CompileKernel hwAArch64 = False"
  "PointerTagShift hwAArch64 = 56" "TagMaskByte hwAArch64 = 0xFF"
  "getArch (TargetTriple hwAArch64) = aarch64"
  by (simp_all add: hwAArch64_def initializeModule_def Let_def AArch64Linux_def
      DefaultOptions_def cl_init_def shouldUsePageAliases_def)

subsection \<open>Pointer tag codec\<close>

lemma untag_user:
  "\<not> UsePageAliases hw \<Longrightarrow> \<not> CompileKernel hw \<Longrightarrow>
   untagPointer hw p = Inr (p AND NOT (push_bit (PointerTagShift hw) (TagMaskByte hw)))"
  by (simp add: untagPointer_def)

lemma untag_kernel:
  "\<not> UsePageAliases hw \<Longrightarrow> CompileKernel hw \<Longrightarrow>
   untagPointer hw p = Inr (p OR push_bit (PointerTagShift hw) (TagMaskByte hw))"
  by (simp add: untagPointer_def)

lemma tag_user:
  "\<not> UsePageAliases hw \<Longrightarrow> \<not> CompileKernel hw \<Longrightarrow>
   tagPointer hw p t = Inr (p OR push_bit (PointerTagShift hw) t)"
  by (simp add: tagPointer_def)

lemma tag_kernel:
  "\<not> UsePageAliases hw \<Longrightarrow> CompileKernel hw \<Longrightarrow>
   tagPointer hw p t =
     Inr (p AND (push_bit (PointerTagShift hw) t OR mask (PointerTagShift hw)))"
  unfolding tagPointer_def Let_def low_mask by simp

lemma tag_untag_56:
  assumes s: "PointerTagShift hw = 56" and m: "TagMaskByte hw = 0xFF"
    and a: "\<not> UsePageAliases hw"
  shows "\<exists>x. tagPointer hw p t = Inr x \<and> untagPointer hw x = untagPointer hw p"
proof (cases "CompileKernel hw")
  case True
  show ?thesis
    unfolding tag_kernel [OF a True] untag_kernel [OF a True] s m ff_mask
    using kern56 [of p t] by simp
next
  case False
  show ?thesis
    unfolding tag_user [OF a False] untag_user [OF a False] s m ff_mask
    using user56 [of p t] by simp
qed

lemma tag_untag_57:
  assumes s: "PointerTagShift hw = 57" and m: "TagMaskByte hw = 0x3F"
    and a: "\<not> UsePageAliases hw" and k: "\<not> CompileKernel hw" and t: "t \<le> 0x3F"
  shows "\<exists>x. tagPointer hw p t = Inr x \<and> untagPointer hw x = untagPointer hw p"
  unfolding tag_user [OF a k] untag_user [OF a k] s m ff_mask
  using user57 [OF t, of p] by simp

lemma tag_field_56:
  assumes s: "PointerTagShift hw = 56" and m: "TagMaskByte hw = 0xFF"
    and a: "\<not> UsePageAliases hw"
  shows "\<exists>u x. untagPointer hw p = Inr u \<and> tagPointer hw u t = Inr x \<and>
     tagField hw x = t AND TagMaskByte hw"
proof (cases "CompileKernel hw")
  case True
  show ?thesis
    unfolding tag_kernel [OF a True] untag_kernel [OF a True] tagField_def s m ff_mask
    using field_kern56 [of p t] by simp
next
  case False
  show ?thesis
    unfolding tag_user [OF a False] untag_user [OF a False] tagField_def s m ff_mask
    using field_user56 [of p t] by simp
qed

lemma tag_field_57:
  assumes s: "PointerTagShift hw = 57" and m: "TagMaskByte hw = 0x3F"
    and a: "\<not> UsePageAliases hw"
  shows "\<exists>u x. untagPointer hw p = Inr u \<and> tagPointer hw u t = Inr x \<and>
     tagField hw x = t AND TagMaskByte hw"
proof (cases "CompileKernel hw")
  case True
  show ?thesis
    unfolding tag_kernel [OF a True] untag_kernel [OF a True] tagField_def s m ff_mask
    using field_kern57 [of p t] by simp
next
  case False
  show ?thesis
    unfolding tag_user [OF a False] untag_user [OF a False] tagField_def s m ff_mask
    using field_user57 [of p t] by simp
qed

lemma tag_mod:
  assumes "TagMaskByte hw = 0xFF \<or> TagMaskByte hw = 0x3F"
  shows "unat (t AND TagMaskByte hw) = unat t mod (unat (TagMaskByte hw) + 1)"
  using assms unat_and_mask_mod [of t 8] unat_and_mask_mod [of t 6]
  by (auto simp flip: ff_mask)

text \<open>
  C1, as stated, fails on x86_64, where the tag field is the six bits 57..62:
  tagging the null pointer with 64 sets bit 63, which untagging does not reset.
\<close>

theorem tag_untag_x86_64_counterexample:
  "tagPointer hwX86_64 0 64 = Inr 0x8000000000000000 \<and>
   untagPointer hwX86_64 0x8000000000000000 = Inr 0x8000000000000000 \<and>
   untagPointer hwX86_64 0 = Inr 0"
  by (simp add: tagPointer_def untagPointer_def hwX86_64_simps)

text \<open>
  C1 (amended): untagging a tagged pointer gives the untagged pointer, for every
  pointer and every tag in user and in kernel mode on the targets other than
  x86_64 (shift 56, mask 0xFF), and on x86_64 (shift 57, mask 0x3F) in user mode
  for every tag that lies within the mask.
\<close>

theorem untag_tagPointer:
  assumes "hw = initializeModule opts T ck rc" and "\<not> UsePageAliases hw"
    and "getArch T = x86_64 \<longrightarrow> \<not> CompileKernel hw \<and> t \<le> 0x3F"
  shows "\<exists>x. tagPointer hw p t = Inr x \<and> untagPointer hw x = untagPointer hw p"
  using shift_mask_cases [of opts T ck rc] assms
    tag_untag_56 [of hw p t] tag_untag_57 [of hw t p]
  by auto

theorem untag_tagPointer_witness:
  "tagPointer hwAArch64 0x00007FFF12345670 0xAB = Inr 0xAB007FFF12345670 \<and>
   untagPointer hwAArch64 0xAB007FFF12345670 = untagPointer hwAArch64 0x00007FFF12345670 \<and>
   tagPointer hwX86_64 0x00007FFF12345670 0x2A = Inr 0x54007FFF12345670 \<and>
   untagPointer hwX86_64 0x54007FFF12345670 = untagPointer hwX86_64 0x00007FFF12345670"
proof -
  have a: "\<exists>x. tagPointer hwAArch64 0x00007FFF12345670 0xAB = Inr x \<and>
      untagPointer hwAArch64 x = untagPointer hwAArch64 0x00007FFF12345670"
    by (rule untag_tagPointer [OF hwAArch64_def])
      (simp_all add: hwAArch64_simps AArch64Linux_def)
  have b: "\<exists>x. tagPointer hwX86_64 0x00007FFF12345670 0x2A = Inr x \<and>
      untagPointer hwX86_64 x = untagPointer hwX86_64 0x00007FFF12345670"
    by (rule untag_tagPointer [OF hwX86_64_def])
      (simp_all add: hwX86_64_simps X86_64Linux_def)
  have c: "tagPointer hwAArch64 0x00007FFF12345670 0xAB = Inr 0xAB007FFF12345670"
    by (simp add: tagPointer_def hwAArch64_simps)
  have d: "tagPointer hwX86_64 0x00007FFF12345670 0x2A = Inr 0x54007FFF12345670"
    by (simp add: tagPointer_def hwX86_64_simps)
  from a b c d show ?thesis by simp
qed

text \<open>
  C8, as stated, fails for a pointer that already carries a tag: in user mode
  the new tag is OR-ed into the old one.
\<close>

theorem tag_field_counterexample:
  "tagPointer hwAArch64 0xFF00000000000000 0 = Inr 0xFF00000000000000 \<and>
   unat (tagField hwAArch64 0xFF00000000000000) = 255 \<and>
   unat (0 :: 64 word) mod (unat (TagMaskByte hwAArch64) + 1) = 0"
  by (simp add: tagPointer_def tagField_def hwAArch64_simps)

text \<open>
  C8 (amended): for every pointer p and tag t, the tag field of
  tag(untag(p), t), the way the pass tags every allocation, is t AND TagMaskByte,
  which is t mod (TagMaskByte + 1).
\<close>

theorem tagField_tagPointer:
  assumes "hw = initializeModule opts T ck rc" and "\<not> UsePageAliases hw"
  shows "\<exists>u x. untagPointer hw p = Inr u \<and> tagPointer hw u t = Inr x \<and>
     tagField hw x = t AND TagMaskByte hw \<and>
     unat (tagField hw x) = unat t mod (unat (TagMaskByte hw) + 1)"
proof -
  have m: "TagMaskByte hw = 0xFF \<or> TagMaskByte hw = 0x3F"
    using shift_mask_cases [of opts T ck rc] assms(1) by auto
  have "\<exists>u x. untagPointer hw p = Inr u \<and> tagPointer hw u t = Inr x \<and>
     tagField hw x = t AND TagMaskByte hw"
    using shift_mask_cases [of opts T ck rc] assms
      tag_field_56 [of hw p t] tag_field_57 [of hw p t]
    by auto
  then show ?thesis using tag_mod [OF m, of t] by auto
qed

theorem tagField_tagPointer_witness:
  "\<not> UsePageAliases hwX86_64 \<and>
   untagPointer hwX86_64 0x7E007FFF12345670 = Inr 0x00007FFF12345670 \<and>
   tagPointer hwX86_64 0x00007FFF12345670 0x6A = Inr 0xD4007FFF12345670 \<and>
   tagField hwX86_64 0xD4007FFF12345670 = 0x2A \<and>
   unat (0x6A :: 64 word) mod (unat (TagMaskByte hwX86_64) + 1) = 0x2A"
proof -
  have "\<exists>u x. untagPointer hwX86_64 0x7E007FFF12345670 = Inr u \<and>
      tagPointer hwX86_64 u 0x6A = Inr x \<and>
      tagField hwX86_64 x = 0x6A AND TagMaskByte hwX86_64 \<and>
      unat (tagField hwX86_64 x) = unat (0x6A :: 64 word) mod (unat (TagMaskByte hwX86_64) + 1)"
    by (rule tagField_tagPointer [OF hwX86_64_def])
      (simp_all add: hwX86_64_simps)
  then show ?thesis
    by (simp add: tagPointer_def untagPointer_def tagField_def hwX86_64_simps)
qed

subsection \<open>Retag masks\<close>

lemma retag_x86: "ucast ((ucast (N::32 word) :: 64 word) AND mask 6) = N AND mask 6"
  by (rule bit_word_eqI) (auto simp add: bit_simps)

lemma retag_x86_back:
  "(ucast (ucast ((ucast (N::32 word) :: 64 word) AND mask 6) :: 32 word) :: 64 word) =
   ucast N AND mask 6"
  by (rule bit_word_eqI) (auto simp add: bit_simps)

lemma mask6_32: "(0x3F :: 32 word) = mask 6"
  by (simp add: mask_eq_exp_minus_1)

lemma len_FastMasks: "length FastMasks = 36"
  by (simp add: FastMasks_def)

lemma retag_period:
  assumes a: "getArch (TargetTriple hw) \<noteq> x86_64" and b: "unat N + 36 < 2 ^ 32"
  shows "retagMask hw (N + 36) = retagMask hw N"
proof -
  have "unat (N + 36) = unat N + 36"
    using b by (simp add: unat_add_lem [THEN iffD1])
  then show ?thesis using a by (simp add: retagMask_def len_FastMasks)
qed

lemma FastMasks_runs:
  "list_all (\<lambda>x. x \<in> set singleRunBytes \<and> x \<noteq> 255) FastMasks"
  by (simp add: FastMasks_def singleRunBytes_def upt_rec mask_eq_exp_minus_1)

lemma distinct_FastMasks: "distinct FastMasks"
  by (simp add: FastMasks_def)

text \<open>
  C4: the retag mask is a function of the allocation index alone. On x86_64 it
  is the index AND TagMaskByte; elsewhere it is the entry of the fixed 36-entry
  table at index N mod 36, so it has period 36 (for indices N and N + 36 that
  both fit the unsigned index type). The table holds 36 distinct byte values
  with a single run of one-bits (or none), and not 255.
\<close>

theorem retagMask_spec:
  assumes "hw = initializeModule opts T ck rc"
  shows "(getArch T = x86_64 \<longrightarrow>
            retagMask hw N = N AND 0x3F \<and> ucast (retagMask hw N) = (ucast N AND TagMaskByte hw)) \<and>
         (getArch T \<noteq> x86_64 \<longrightarrow>
            retagMask hw N = FastMasks ! (unat N mod 36) \<and>
            (unat N + 36 < 2 ^ 32 \<longrightarrow> retagMask hw (N + 36) = retagMask hw N)) \<and>
         length FastMasks = 36 \<and> distinct FastMasks \<and>
         list_all (\<lambda>x. x \<in> set singleRunBytes \<and> x \<noteq> 255) FastMasks"
proof -
  have t: "TargetTriple hw = T" using assms by (simp add: TargetTriple_initializeModule)
  have x: "getArch T = x86_64 \<Longrightarrow> retagMask hw N = N AND 0x3F"
    using shift_mask_cases [of opts T ck rc] assms t retag_x86 [of N]
    by (simp add: retagMask_def ff_mask mask6_32)
  have x2: "getArch T = x86_64 \<Longrightarrow> ucast (retagMask hw N) = (ucast N AND TagMaskByte hw)"
    using shift_mask_cases [of opts T ck rc] assms t retag_x86_back [of N]
    by (simp add: retagMask_def ff_mask)
  have y: "getArch T \<noteq> x86_64 \<Longrightarrow> retagMask hw N = FastMasks ! (unat N mod 36)"
    using t by (simp add: retagMask_def len_FastMasks)
  show ?thesis
    using x x2 y retag_period [of hw N] t len_FastMasks distinct_FastMasks FastMasks_runs
    by simp
qed


theorem retagMask_spec_witness:
  "getArch X86_64Linux = x86_64 \<and> retagMask hwX86_64 100 = 36 \<and>
   getArch AArch64Linux \<noteq> x86_64 \<and> retagMask hwAArch64 40 = FastMasks ! 4 \<and>
   retagMask hwAArch64 40 = 32 \<and> unat (4 :: 32 word) + 36 < 2 ^ 32 \<and>
   retagMask hwAArch64 (4 + 36) = retagMask hwAArch64 4"
  using retagMask_spec [OF hwX86_64_def, of 100] retagMask_spec [OF hwAArch64_def, of 4]
    retagMask_spec [OF hwAArch64_def, of 40]
  by (simp add: X86_64Linux_def AArch64Linux_def FastMasks_def)

text \<open>
  The allocation index is a 32-bit unsigned value; where N + 36 wraps around, the
  table index restarts at 0 (2^32 is not a multiple of 36).
\<close>

lemma retagMask_wraps:
  "retagMask hwAArch64 4294967260 = 32 \<and> retagMask hwAArch64 (4294967260 + 36) = 0"
  by (simp add: retagMask_def hwAArch64_simps FastMasks_def)

subsection \<open>The shadow-mapping resolver\<close>






subsection \<open>Global tagging\<close>

lemma length_assignedTags [simp]: "length (assignedTags hw Tag n) = n"
  by (induction n arbitrary: Tag) simp_all

lemma resetTag_range:
  assumes "16 \<le> TagMaskByte hw"
  shows "16 \<le> resetTag hw Tag \<and> ucast (resetTag hw Tag) \<le> TagMaskByte hw"
  using assms by (auto simp add: resetTag_def not_less)

lemma assignedTags_range:
  "16 \<le> TagMaskByte hw \<Longrightarrow> t \<in> set (assignedTags hw Tag n) \<Longrightarrow>
   16 \<le> t \<and> ucast t \<le> TagMaskByte hw"
proof (induction n arbitrary: Tag)
  case 0
  then show ?case by simp
next
  case (Suc n)
  from Suc.prems(2) consider "t = resetTag hw Tag"
    | "t \<in> set (assignedTags hw (resetTag hw Tag + 1) n)"
    by auto
  then show ?case
  proof cases
    case 1
    then show ?thesis using resetTag_range [OF Suc.prems(1), of Tag] by simp
  next
    case 2
    then show ?thesis using Suc.IH [OF Suc.prems(1)] by blast
  qed
qed

lemma assignedTags_hd:
  "0 < n \<Longrightarrow> hd (assignedTags hw Tag n) = resetTag hw Tag"
  by (cases n) simp_all

lemma assignedTags_step:
  "Suc i < n \<Longrightarrow>
   assignedTags hw Tag n ! Suc i = resetTag hw (assignedTags hw Tag n ! i + 1)"
proof (induction n arbitrary: Tag i)
  case 0
  then show ?case by simp
next
  case (Suc n)
  note prems = Suc.prems and IH = Suc.IH
  show ?case
  proof (cases i)
    case 0
    with prems obtain m where "n = Suc m" by (cases n) auto
    with 0 show ?thesis by simp
  next
    case (Suc j)
    with prems have "Suc j < n" by simp
    from IH [OF this, of "resetTag hw Tag + 1"] Suc show ?thesis by simp
  qed
qed


lemma instrumentGlobal_Inr:
  assumes "instrumentGlobal hw DL GV Tag M = Inr M1"
  shows "\<not> UsePageAliases hw \<and>
    (\<exists>Initializer. getInitializer GV = Some Initializer \<and>
       globals M1 = removeAll GV (globals M @ [NewGV hw DL GV Initializer Tag] @
          map (Descriptor GV (DL Initializer) Tag) (descriptorPositions 0 (unat (DL Initializer)))) \<and>
       aliases M1 = aliases M @ [Alias hw GV Tag])"
proof (cases "UsePageAliases hw")
  case True
  with assms show ?thesis by (simp add: instrumentGlobal_def)
next
  case False
  show ?thesis
  proof (cases "getInitializer GV")
    case None
    with assms False show ?thesis by (simp add: instrumentGlobal_def)
  next
    case (Some I)
    with assms False show ?thesis by (auto simp add: instrumentGlobal_def Let_def)
  qed
qed

lemma tagGlobals_Cons:
  assumes "tagGlobals hw DL (GV # Gs) Tag M = Inr M'"
  obtains M1 where "instrumentGlobal hw DL GV (resetTag hw Tag) M = Inr M1"
    and "tagGlobals hw DL Gs (resetTag hw Tag + 1) M1 = Inr M'"
  using assms by (cases "instrumentGlobal hw DL GV (resetTag hw Tag) M") (simp_all add: Let_def)

lemma tagGlobals_aliases:
  "tagGlobals hw DL Gs Tag M = Inr M' \<Longrightarrow>
   aliases M' = aliases M @
     map (\<lambda>(GV, t). Alias hw GV t) (zip Gs (assignedTags hw Tag (length Gs)))"
proof (induction Gs arbitrary: Tag M)
  case Nil
  then show ?case by simp
next
  case (Cons GV Gs)
  from Cons.prems obtain M1 where
    1: "instrumentGlobal hw DL GV (resetTag hw Tag) M = Inr M1" and
    2: "tagGlobals hw DL Gs (resetTag hw Tag + 1) M1 = Inr M'"
    by (rule tagGlobals_Cons)
  from instrumentGlobal_Inr [OF 1] have "aliases M1 = aliases M @ [Alias hw GV (resetTag hw Tag)]"
    by blast
  with Cons.IH [OF 2] show ?case by simp
qed

lemma resetTag_first:
  "resetTag hw Tag = (if 16 \<le> Tag \<and> ucast Tag \<le> TagMaskByte hw then Tag else 16)"
  by (auto simp add: resetTag_def not_less not_le)

lemma byte_succ:
  assumes "(t :: 8 word) \<noteq> 0xFF"
  shows "unat (t + 1) = unat t + 1"
proof -
  have "unat t < 256" using unsigned_less [of t] by simp
  moreover have "unat t \<noteq> 255" using assms by (simp add: word_unat_eq_iff)
  ultimately have "unat t + unat (1 :: 8 word) < 2 ^ LENGTH(8)" by simp
  then have "unat (t + 1) = unat t + unat (1 :: 8 word)" by (rule unat_add_lem [THEN iffD1])
  then show ?thesis by simp
qed

lemma unat_ucast_byte: "unat (ucast (t :: 8 word) :: 64 word) = unat t"
  by (simp add: unsigned_ucast_eq take_bit_nat_eq_self unsigned_less [of t, THEN less_trans])

lemma resetTag_next:
  assumes "16 \<le> t" and "ucast t \<le> TagMaskByte hw"
  shows "resetTag hw (t + 1) =
    (if t \<noteq> 0xFF \<and> ucast t < TagMaskByte hw then t + 1 else 16)"
proof (cases "t = 0xFF")
  case True
  then show ?thesis by (simp add: resetTag_def)
next
  case False
  have s: "unat (t + 1) = unat t + 1" using False by (rule byte_succ)
  have a: "16 \<le> unat t" using assms(1) by (simp add: word_le_nat_alt)
  have "\<not> t + 1 < 16" using a s by (simp add: word_less_nat_alt)
  moreover have "(TagMaskByte hw < ucast (t + 1)) = (\<not> ucast t < TagMaskByte hw)"
    using assms(2) s by (simp add: word_less_nat_alt word_le_nat_alt unat_ucast_byte) arith
  ultimately show ?thesis using False by (simp add: resetTag_def)
qed

text \<open>
  C5: every tag that global tagging assigns lies in [16, TagMaskByte]. The first
  tag is the first hash byte when that byte lies in [16, TagMaskByte], and 16
  otherwise. Each further tag is its predecessor plus one, except that it is 16
  when the predecessor is \<open>TagMaskByte\<close> or 255 (where plus one would leave the
  range or wrap to 0 in 8 bits). The tags are read off the aliases the run
  creates, one for each collected global, in order.
\<close>

theorem global_tags:
  assumes "instrumentGlobals hw DL Hash0 M = Inr M'"
  shows "\<exists>ts. length ts = length (collectGlobals M) \<and>
     aliases M' = aliases M @ map (\<lambda>(GV, t). Alias hw GV t) (zip (collectGlobals M) ts) \<and>
     (\<forall>t \<in> set ts. 16 \<le> t \<and> ucast t \<le> TagMaskByte hw) \<and>
     (ts \<noteq> [] \<longrightarrow>
        hd ts = (if 16 \<le> Hash0 (getSourceFileName M) \<and>
                    ucast (Hash0 (getSourceFileName M)) \<le> TagMaskByte hw
                 then Hash0 (getSourceFileName M) else 16)) \<and>
     (\<forall>i. Suc i < length ts \<longrightarrow>
        ts ! Suc i = (if ts ! i \<noteq> 0xFF \<and> ucast (ts ! i) < TagMaskByte hw
                      then ts ! i + 1 else 16))"
proof -
  let ?n = "length (collectGlobals M)"
  let ?h = "Hash0 (getSourceFileName M)"
  let ?ts = "assignedTags hw ?h ?n"
  have m: "16 \<le> TagMaskByte hw"
    using assms by (simp add: instrumentGlobals_def Let_def not_less split: if_splits)
  have r: "tagGlobals hw DL (collectGlobals M) ?h M = Inr M'"
    using assms by (simp add: instrumentGlobals_def Let_def split: if_splits)
  have a: "aliases M' = aliases M @ map (\<lambda>(GV, t). Alias hw GV t) (zip (collectGlobals M) ?ts)"
    by (rule tagGlobals_aliases [OF r])
  have b: "\<forall>t \<in> set ?ts. 16 \<le> t \<and> ucast t \<le> TagMaskByte hw"
    using assignedTags_range [OF m] by blast
  have c: "?ts \<noteq> [] \<longrightarrow>
      hd ?ts = (if 16 \<le> ?h \<and> ucast ?h \<le> TagMaskByte hw then ?h else 16)"
    using assignedTags_hd [of ?n hw ?h] by (cases ?n) (simp_all only: resetTag_first simp_thms assignedTags.simps list.simps neq0_conv zero_less_Suc)
  have d: "\<forall>i. Suc i < length ?ts \<longrightarrow>
      ?ts ! Suc i = (if ?ts ! i \<noteq> 0xFF \<and> ucast (?ts ! i) < TagMaskByte hw
                     then ?ts ! i + 1 else 16)"
  proof (intro allI impI)
    fix i assume i: "Suc i < length ?ts"
    then have "?ts ! i \<in> set ?ts" by simp
    with b have "16 \<le> ?ts ! i" and "ucast (?ts ! i) \<le> TagMaskByte hw" by blast+
    then have "resetTag hw (?ts ! i + 1) =
        (if ?ts ! i \<noteq> 0xFF \<and> ucast (?ts ! i) < TagMaskByte hw then ?ts ! i + 1 else 16)"
      by (rule resetTag_next)
    moreover from i have "Suc i < ?n" by simp
    then have "?ts ! Suc i = resetTag hw (?ts ! i + 1)" by (rule assignedTags_step)
    ultimately show "?ts ! Suc i =
        (if ?ts ! i \<noteq> 0xFF \<and> ucast (?ts ! i) < TagMaskByte hw then ?ts ! i + 1 else 16)"
      by (simp only:)
  qed
  have l: "length ?ts = length (collectGlobals M)" by simp
  from l a b c d show ?thesis by blast
qed

lemma not_skip_Initializer:
  "\<not> skipGlobal GV \<Longrightarrow> \<exists>I. getInitializer GV = Some I"
  by (cases "getInitializer GV")
    (auto simp add: skipGlobal_def isDeclarationForLinker_def split: if_splits)










lemma instrumentGlobal_succeeds:
  assumes "\<not> UsePageAliases hw" and "\<not> skipGlobal GV"
  shows "\<exists>M1. instrumentGlobal hw DL GV Tag M = Inr M1"
proof -
  from assms(2) obtain I where "getInitializer GV = Some I"
    using not_skip_Initializer by blast
  with assms(1) show ?thesis by (simp add: instrumentGlobal_def Let_def)
qed

lemma tagGlobals_succeeds:
  assumes "\<not> UsePageAliases hw \<or> Gs = []" and "\<forall>g\<in>set Gs. \<not> skipGlobal g"
  shows "\<exists>M'. tagGlobals hw DL Gs Tag M = Inr M'"
  using assms
proof (induction Gs arbitrary: Tag M)
  case Nil
  then show ?case by simp
next
  case (Cons GV Gs)
  from Cons.prems(1) have u: "\<not> UsePageAliases hw" by simp
  from Cons.prems(2) have s: "\<not> skipGlobal GV" and ss: "\<forall>g\<in>set Gs. \<not> skipGlobal g"
    by simp_all
  from instrumentGlobal_succeeds [OF u s] obtain M1 where
    1: "instrumentGlobal hw DL GV (resetTag hw Tag) M = Inr M1" by blast
  from u have "\<not> UsePageAliases hw \<or> Gs = []" by simp
  from Cons.IH [OF this ss] obtain M' where
    "tagGlobals hw DL Gs (resetTag hw Tag + 1) M1 = Inr M'" by blast
  with 1 show ?case by (simp add: Let_def)
qed





text \<open>Global tagging succeeds whenever page aliases are off and the tag mask is at least 16.\<close>

lemma instrumentGlobals_succeeds:
  assumes "16 \<le> TagMaskByte hw" and "\<not> UsePageAliases hw"
  shows "\<exists>M'. instrumentGlobals hw DL Hash0 M = Inr M'"
proof -
  have "\<forall>g\<in>set (collectGlobals M). \<not> skipGlobal g" by (simp add: collectGlobals_def)
  moreover from assms(2) have "\<not> UsePageAliases hw \<or> collectGlobals M = []" by simp
  ultimately have "\<exists>M'. tagGlobals hw DL (collectGlobals M) (Hash0 (getSourceFileName M)) M = Inr M'"
    using tagGlobals_succeeds by blast
  with assms(1) show ?thesis by (simp add: instrumentGlobals_def Let_def not_less)
qed


subsection \<open>Global tagging on the sample modules\<close>

lemma descriptorPositions_Nil: "s \<le> p \<Longrightarrow> descriptorPositions p s = []"
  by (subst descriptorPositions.simps) simp




lemma alignTo_20: "alignTo 20 16 = (32 :: 64 word)"
  by (simp add: alignTo_def word_div_def)

lemmas global_defs = instrumentGlobals_def collectGlobals_def skipGlobal_def
  isDeclarationForLinker_def startswith_def hasCommonLinkage_def hasSection_def
  instrumentGlobal_def NewGV_def Descriptor_def Alias_def paddedInitializer_def
  resetTag_def Let_def

lemma TagMaskByte_ok: "\<not> TagMaskByte hwAArch64 < 16"
  by (simp add: hwAArch64_simps)








text \<open>A global of size 0 has no descriptor.\<close>

lemma newGlobals_zero_size:
  assumes "getInitializer GV = Some I" and "DL I = 0"
  shows "newGlobals hw DL GV Tag = [NewGV hw DL GV I Tag]"
  using assms by (simp add: newGlobals_def descriptorPositions_Nil)

lemma collect_ABC: "collectGlobals ModuleABC = [GlobalA, GlobalB, GlobalC]"
  by (simp add: ModuleABC_def collectGlobals_def skipGlobal_def isDeclarationForLinker_def
      startswith_def hasCommonLinkage_def hasSection_def GlobalA_def GlobalB_def GlobalC_def
      GlobalDecl_def)

lemma run_ABC:
  "\<exists>M'. instrumentGlobals hwAArch64 (\<lambda>_. 20) (\<lambda>_. 0xFE) ModuleABC = Inr M'"
  by (simp add: instrumentGlobals_def collect_ABC TagMaskByte_ok Let_def instrumentGlobal_def
      hwAArch64_simps GlobalA_def GlobalB_def GlobalC_def)

lemma run_ABC_x86_64:
  "\<exists>M'. instrumentGlobals hwX86_64 (\<lambda>_. 20) (\<lambda>_. 0x3E) ModuleABC = Inr M'"
  by (simp add: instrumentGlobals_def collect_ABC Let_def instrumentGlobal_def
      hwX86_64_simps GlobalA_def GlobalB_def GlobalC_def)

theorem global_tags_witness:
  "(\<exists>M'. instrumentGlobals hwAArch64 (\<lambda>_. 20) (\<lambda>_. 0xFE) ModuleABC = Inr M' \<and>
     map Aliasee (aliases M') =
       [(''a.hwasan'', 0xFE00000000000000), (''b.hwasan'', 0xFF00000000000000),
        (''c.hwasan'', 0x1000000000000000)]) \<and>
   (\<exists>M'. instrumentGlobals hwX86_64 (\<lambda>_. 20) (\<lambda>_. 0x3E) ModuleABC = Inr M' \<and>
     map Aliasee (aliases M') =
       [(''a.hwasan'', 0x7C00000000000000), (''b.hwasan'', 0x7E00000000000000),
        (''c.hwasan'', 0x2000000000000000)])"
proof -
  have A: "\<exists>M'. instrumentGlobals hwAArch64 (\<lambda>_. 20) (\<lambda>_. 0xFE) ModuleABC = Inr M' \<and>
     map Aliasee (aliases M') =
       [(''a.hwasan'', 0xFE00000000000000), (''b.hwasan'', 0xFF00000000000000), (''c.hwasan'', 0x1000000000000000)]"
  proof -
    from run_ABC obtain M' where
      run: "instrumentGlobals hwAArch64 (\<lambda>_. 20) (\<lambda>_. 0xFE) ModuleABC = Inr M'" ..
    from global_tags [OF run] obtain ts where
      p: "length ts = length (collectGlobals ModuleABC) \<and>
       aliases M' = aliases ModuleABC @
         map (\<lambda>(GV, t). Alias hwAArch64 GV t) (zip (collectGlobals ModuleABC) ts) \<and>
       (\<forall>t \<in> set ts. 16 \<le> t \<and> ucast t \<le> TagMaskByte hwAArch64) \<and>
       (ts \<noteq> [] \<longrightarrow>
          hd ts = (if 16 \<le> (0xFE :: 8 word) \<and> ucast (0xFE :: 8 word) \<le> TagMaskByte hwAArch64
                   then 0xFE else 16)) \<and>
       (\<forall>i. Suc i < length ts \<longrightarrow>
          ts ! Suc i = (if ts ! i \<noteq> 0xFF \<and> ucast (ts ! i) < TagMaskByte hwAArch64
                        then ts ! i + 1 else 16))"
      by blast
    from p have l: "length ts = 3" by (simp add: collect_ABC)
    from p have a: "aliases M' = aliases ModuleABC @
         map (\<lambda>(GV, t). Alias hwAArch64 GV t) (zip (collectGlobals ModuleABC) ts)" by blast
    from p have h: "ts \<noteq> [] \<longrightarrow>
          hd ts = (if 16 \<le> (0xFE :: 8 word) \<and> ucast (0xFE :: 8 word) \<le> TagMaskByte hwAArch64
                   then 0xFE else 16)" by blast
    from p have s: "\<forall>i. Suc i < length ts \<longrightarrow>
          ts ! Suc i = (if ts ! i \<noteq> 0xFF \<and> ucast (ts ! i) < TagMaskByte hwAArch64
                        then ts ! i + 1 else 16)"
      by blast
    from l obtain t0 t1 t2 where ts: "ts = [t0, t1, t2]"
      by (auto simp add: numeral_3_eq_3 length_Suc_conv)
    from h ts have t0: "t0 = 0xFE" by (simp add: hwAArch64_simps)
    from s [rule_format, of 0] ts t0 have t1: "t1 = 0xFF" by (simp add: hwAArch64_simps)
    from s [rule_format, of 1] ts t1 have t2: "t2 = 16" by (simp add: hwAArch64_simps)
    have e: "aliases ModuleABC = []" by (simp add: ModuleABC_def)
    have a': "aliases M' =
        map (\<lambda>(GV, t). Alias hwAArch64 GV t)
          (zip [GlobalA, GlobalB, GlobalC] [0xFE, 0xFF, 16])"
      using a by (simp only: collect_ABC e append_Nil ts t0 t1 t2)
    have r: "map Aliasee (aliases M') =
         [(''a.hwasan'', 0xFE00000000000000), (''b.hwasan'', 0xFF00000000000000), (''c.hwasan'', 0x1000000000000000)]"
      unfolding a'
      by (simp add: Alias_def GlobalA_def GlobalB_def GlobalC_def hwAArch64_simps)
    show ?thesis by (rule exI [of _ M']) (simp only: run r simp_thms)
  qed
  have B: "\<exists>M'. instrumentGlobals hwX86_64 (\<lambda>_. 20) (\<lambda>_. 0x3E) ModuleABC = Inr M' \<and>
     map Aliasee (aliases M') =
       [(''a.hwasan'', 0x7C00000000000000), (''b.hwasan'', 0x7E00000000000000), (''c.hwasan'', 0x2000000000000000)]"
  proof -
    from run_ABC_x86_64 obtain M' where
      run: "instrumentGlobals hwX86_64 (\<lambda>_. 20) (\<lambda>_. 0x3E) ModuleABC = Inr M'" ..
    from global_tags [OF run] obtain ts where
      p: "length ts = length (collectGlobals ModuleABC) \<and>
       aliases M' = aliases ModuleABC @
         map (\<lambda>(GV, t). Alias hwX86_64 GV t) (zip (collectGlobals ModuleABC) ts) \<and>
       (\<forall>t \<in> set ts. 16 \<le> t \<and> ucast t \<le> TagMaskByte hwX86_64) \<and>
       (ts \<noteq> [] \<longrightarrow>
          hd ts = (if 16 \<le> (0x3E :: 8 word) \<and> ucast (0x3E :: 8 word) \<le> TagMaskByte hwX86_64
                   then 0x3E else 16)) \<and>
       (\<forall>i. Suc i < length ts \<longrightarrow>
          ts ! Suc i = (if ts ! i \<noteq> 0xFF \<and> ucast (ts ! i) < TagMaskByte hwX86_64
                        then ts ! i + 1 else 16))"
      by blast
    from p have l: "length ts = 3" by (simp add: collect_ABC)
    from p have a: "aliases M' = aliases ModuleABC @
         map (\<lambda>(GV, t). Alias hwX86_64 GV t) (zip (collectGlobals ModuleABC) ts)" by blast
    from p have h: "ts \<noteq> [] \<longrightarrow>
          hd ts = (if 16 \<le> (0x3E :: 8 word) \<and> ucast (0x3E :: 8 word) \<le> TagMaskByte hwX86_64
                   then 0x3E else 16)" by blast
    from p have s: "\<forall>i. Suc i < length ts \<longrightarrow>
          ts ! Suc i = (if ts ! i \<noteq> 0xFF \<and> ucast (ts ! i) < TagMaskByte hwX86_64
                        then ts ! i + 1 else 16)"
      by blast
    from l obtain t0 t1 t2 where ts: "ts = [t0, t1, t2]"
      by (auto simp add: numeral_3_eq_3 length_Suc_conv)
    from h ts have t0: "t0 = 0x3E" by (simp add: hwX86_64_simps)
    from s [rule_format, of 0] ts t0 have t1: "t1 = 0x3F" by (simp add: hwX86_64_simps)
    from s [rule_format, of 1] ts t1 have t2: "t2 = 16" by (simp add: hwX86_64_simps)
    have e: "aliases ModuleABC = []" by (simp add: ModuleABC_def)
    have a': "aliases M' =
        map (\<lambda>(GV, t). Alias hwX86_64 GV t)
          (zip [GlobalA, GlobalB, GlobalC] [0x3E, 0x3F, 16])"
      using a by (simp only: collect_ABC e append_Nil ts t0 t1 t2)
    have r: "map Aliasee (aliases M') =
         [(''a.hwasan'', 0x7C00000000000000), (''b.hwasan'', 0x7E00000000000000), (''c.hwasan'', 0x2000000000000000)]"
      unfolding a'
      by (simp add: Alias_def GlobalA_def GlobalB_def GlobalC_def hwX86_64_simps)
    show ?thesis by (rule exI [of _ M']) (simp only: run r simp_thms)
  qed
  from A B show ?thesis by (rule conjI)
qed

subsection \<open>Sizes and granules\<close>

lemma unat_plus_15:
  assumes "unat (s :: 64 word) < 2 ^ 31"
  shows "unat (s + 15) = unat s + 15"
proof -
  have "unat s + unat (15 :: 64 word) < 2 ^ LENGTH(64)" using assms by simp
  then have "unat (s + 15) = unat s + unat (15 :: 64 word)" by (rule unat_add_lem [THEN iffD1])
  then show ?thesis by simp
qed

lemma unat_div_16: "unat ((x :: 64 word) div 16) = unat x div 16"
  by (simp add: unat_div)

lemma unat_times_16:
  assumes "unat (x :: 64 word) < 2 ^ 32"
  shows "unat (x * 16) = unat x * 16"
proof -
  have "unat x * unat (16 :: 64 word) < 2 ^ LENGTH(64)" using assms by simp
  then have "unat (x * 16) = unat x * unat (16 :: 64 word)" by (rule unat_mult_lem [THEN iffD1])
  then show ?thesis by simp
qed

lemma unat_drop_bit_4: "unat (drop_bit 4 (s :: 64 word)) = unat s div 16"
  by (simp add: drop_bit_eq_div unat_div)

lemma unat_mod_16: "unat ((s :: 64 word) mod 16) = unat s mod 16"
  by (simp add: unat_mod)

lemma ucast_mod_16: "unat (ucast ((s :: 64 word) mod 16) :: 8 word) = unat s mod 16"
proof -
  have "unat s mod 16 < 16" by simp
  then have "unat s mod 16 < 256" by arith
  then show ?thesis by (simp add: unsigned_ucast_eq unat_mod_16 take_bit_eq_mod)
qed

lemma scast_ucast_masked:
  "scast (ucast ((x::64 word) AND mask 31) :: 32 word) = (x AND mask 31 :: 64 word)"
  by (rule bit_word_eqI) (auto simp add: bit_simps min_def)

lemma small_masked: "unat (x :: 64 word) < 2 ^ 31 \<Longrightarrow> x AND mask 31 = x"
  by (rule less_mask_eq) (simp add: word_less_nat_alt)

lemma scast_ucast_small:
  assumes "unat (x :: 64 word) < 2 ^ 31"
  shows "scast (ucast x :: 32 word) = x"
  using scast_ucast_masked [of x] small_masked [OF assms] by simp


lemma unat_alignTo_16:
  assumes "unat (s :: 64 word) < 2 ^ 31"
  shows "unat (alignTo s 16) = (unat s + 15) div 16 * 16"
proof -
  have "s + 16 - 1 = s + 15" by simp
  then have e: "alignTo s 16 = (s + 15) div 16 * 16" by (simp only: alignTo_def)
  have d: "unat ((s + 15) div 16) = (unat s + 15) div 16"
    by (simp only: unat_div_16 unat_plus_15 [OF assms])
  have "(unat s + 15) div 16 < 2 ^ 32" using assms by simp
  then have "unat ((s + 15) div 16) < 2 ^ 32" by (simp only: d)
  from unat_times_16 [OF this] show ?thesis by (simp only: e d)
qed

lemma word_eq_of_nat: "unat (w :: 'a::len word) = n \<Longrightarrow> w = of_nat n"
  by auto

lemma drop_bit_4_of_nat: "drop_bit 4 (s :: 64 word) = of_nat (unat s div 16)"
  by (rule word_eq_of_nat) (rule unat_drop_bit_4)

lemma remainder_of_nat: "(ucast ((s :: 64 word) mod 16) :: 8 word) = of_nat (unat s mod 16)"
  by (rule word_eq_of_nat) (rule ucast_mod_16)

lemma alignTo_drop_bit_of_nat:
  assumes "unat (s :: 64 word) < 2 ^ 31"
  shows "drop_bit 4 (alignTo s 16) = of_nat ((unat s + 15) div 16)"
proof (rule word_eq_of_nat)
  have "unat (drop_bit 4 (alignTo s 16)) = (unat s + 15) div 16 * 16 div 16"
    by (simp only: unat_drop_bit_4 unat_alignTo_16 [OF assms])
  then show "unat (drop_bit 4 (alignTo s 16)) = (unat s + 15) div 16" by simp
qed

lemma alignTo_eq_iff:
  assumes "unat (s :: 64 word) < 2 ^ 31"
  shows "(s = alignTo s 16) = (unat s mod 16 = 0)"
proof -
  have "(s = alignTo s 16) = (unat s = (unat s + 15) div 16 * 16)"
    by (simp only: word_unat_eq_iff unat_alignTo_16 [OF assms])
  also have "\<dots> = (unat s mod 16 = 0)" by presburger
  finally show ?thesis .
qed

lemma ceil_div_16:
  assumes "(n :: nat) mod 16 \<noteq> 0"
  shows "(n + 15) div 16 = n div 16 + 1"
proof -
  let ?r = "n mod 16"
  have r: "0 < ?r" "?r < 16" using assms by simp_all
  have "(?r + 15) div 16 = 1"
    by (rule div_nat_eqI) (use r in simp_all)
  moreover have "n + 15 = 16 * (n div 16) + (?r + 15)" by simp
  then have "(n + 15) div 16 = n div 16 + (?r + 15) div 16"
    by (simp only: div_mult_self4 zero_neq_numeral not_False_eq_True)
  ultimately show ?thesis by simp
qed

lemma alignTo_minus_1:
  assumes "unat (s :: 64 word) < 2 ^ 31" and "unat s mod 16 \<noteq> 0"
  shows "alignTo s 16 - 1 = of_nat (unat s div 16 * 16 + 15)"
proof (rule word_eq_of_nat)
  have a: "unat (alignTo s 16) = (unat s + 15) div 16 * 16" by (rule unat_alignTo_16 [OF assms(1)])
  have "1 \<le> unat (alignTo s 16)" using a assms(2) by presburger
  then have "unat (alignTo s 16 - 1) = unat (alignTo s 16) - 1"
    by (simp add: unat_sub word_le_nat_alt)
  also have "\<dots> = unat s div 16 * 16 + 15"
  proof -
    have "(unat s + 15) div 16 = unat s div 16 + 1" using assms(2) by (rule ceil_div_16)
    then show ?thesis by (simp add: a)
  qed
  finally show "unat (alignTo s 16 - 1) = unat s div 16 * 16 + 15" .
qed

lemma unat_of_nat_small:
  assumes "n < 2 ^ 31"
  shows "unat (of_nat n :: 64 word) = n"
proof -
  have "(2::nat) ^ 31 < 2 ^ 64" by simp
  with assms have "n < 2 ^ 64" by (rule less_trans)
  then show ?thesis by (simp add: unat_of_nat)
qed

subsection \<open>Stack tagging\<close>

lemma Scale_initializeModule: "Scale (Mapping (initializeModule opts T ck rc)) = 4"
  by (simp add: initializeModule_def Let_def ShadowMapping_init_def kDefaultShadowScale_def)

lemma granule_16: "Scale (Mapping hw) = 4 \<Longrightarrow> getObjectAlignment (Mapping hw) = 16"
  by (simp add: getObjectAlignment_def)

lemma GEP_small: "unat x < 2 ^ 31 \<Longrightarrow> CreateConstGEP1_32 p x = p + x"
  by (simp add: CreateConstGEP1_32_def scast_ucast_small)

lemma drop_bit_4_zero: "(drop_bit 4 (s :: 64 word) = 0) = (unat s div 16 = 0)"
  by (simp only: word_unat_eq_iff unat_drop_bit_4 unsigned_0)

lemmas of_nat_div16_zero = drop_bit_4_zero [unfolded drop_bit_4_of_nat]

lemma tagAlloca_calls:
  assumes "Scale (Mapping hw) = 4" and "InstrumentWithCalls hw"
  shows "tagAlloca hw sb AI Tag s = Inr (CallTagMemoryFunc AI (ucast Tag) (alignTo s 16))"
  using assms by (simp add: tagAlloca_def Let_def granule_16)

lemma tagAlloca_short:
  assumes sc: "Scale (Mapping hw) = 4" and c: "\<not> InstrumentWithCalls hw"
    and g: "UseShortGranules hw" and s: "unat s < 2 ^ 31"
    and u: "untagPointer hw AI = Inr AddrLong"
  shows "tagAlloca hw sb AI Tag s =
     Inr (InlineStores
       ((if unat s div 16 \<noteq> 0
         then [IRMemSet (memToShadow hw sb AddrLong) (ucast Tag) (of_nat (unat s div 16))]
         else []) @
        (if unat s mod 16 \<noteq> 0
         then [IRStore (of_nat (unat s mod 16))
                 (memToShadow hw sb AddrLong + of_nat (unat s div 16)),
               IRStore (ucast Tag) (AI + of_nat (unat s div 16 * 16 + 15))]
         else [])))"
proof -
  have d: "unat (drop_bit 4 s) < 2 ^ 31"
    using s by (simp add: unat_drop_bit_4 div_le_dividend [THEN le_less_trans])
  have g1: "CreateConstGEP1_32 (memToShadow hw sb AddrLong) (of_nat (unat s div 16)) =
      memToShadow hw sb AddrLong + of_nat (unat s div 16)"
    using GEP_small [OF d, of "memToShadow hw sb AddrLong"] unfolding drop_bit_4_of_nat .
  show ?thesis
  proof (cases "unat s mod 16 = 0")
    case True
    then have "s = alignTo s 16" by (simp only: alignTo_eq_iff [OF s])
    then have e: "alignTo s 16 = s" by simp
    show ?thesis using c g u True
      by (simp add: tagAlloca_def Let_def granule_16 [OF sc] sc e of_nat_div16_zero
          drop_bit_4_of_nat)
  next
    case False
    then have ne: "s \<noteq> alignTo s 16" by (simp only: alignTo_eq_iff [OF s] not_False_eq_True)
    have m: "unat (alignTo s 16 - 1) < 2 ^ 31"
    proof -
      have "unat s < 134217728 * 16" using s by simp
      then have "unat s div 16 < 134217728" by (rule less_mult_imp_div_less)
      then have "unat s div 16 * 16 + 15 < 2 ^ 31" by simp
      then show ?thesis by (simp only: alignTo_minus_1 [OF s False] unat_of_nat_small)
    qed
    have g2: "CreateConstGEP1_32 AI (alignTo s 16 - 1) = AI + of_nat (unat s div 16 * 16 + 15)"
      using GEP_small [OF m, of AI] unfolding alignTo_minus_1 [OF s False] .
    show ?thesis using c g u False ne
      by (simp add: tagAlloca_def Let_def granule_16 [OF sc] sc g1 g2 of_nat_div16_zero
          drop_bit_4_of_nat remainder_of_nat)
  qed
qed


lemma of_nat_zero_small:
  assumes "n < 2 ^ 31"
  shows "((of_nat n :: 64 word) = 0) = (n = 0)"
proof
  assume "(of_nat n :: 64 word) = 0"
  then have "unat (of_nat n :: 64 word) = 0" by simp
  then show "n = 0" by (simp only: unat_of_nat_small [OF assms])
next
  assume "n = 0"
  then show "(of_nat n :: 64 word) = 0" by simp
qed

lemma tagAlloca_full:
  assumes sc: "Scale (Mapping hw) = 4" and c: "\<not> InstrumentWithCalls hw"
    and g: "\<not> UseShortGranules hw" and s: "unat s < 2 ^ 31"
    and u: "untagPointer hw AI = Inr AddrLong"
  shows "tagAlloca hw sb AI Tag s =
     Inr (InlineStores
       (if unat s = 0 then []
        else [IRMemSet (memToShadow hw sb AddrLong) (ucast Tag)
                (of_nat ((unat s + 15) div 16))]))"
proof -
  have "unat s + 15 < 268435456 * 16" using s by simp
  then have "(unat s + 15) div 16 < 268435456" by (rule less_mult_imp_div_less)
  then have b: "(unat s + 15) div 16 < 2 ^ 31" by simp
  have z: "((of_nat ((unat s + 15) div 16) :: 64 word) = 0) = (unat s = 0)"
    by (auto simp add: of_nat_zero_small [OF b] div_eq_0_iff)
  show ?thesis using c g u
    by (simp add: tagAlloca_def Let_def granule_16 [OF sc] sc alignTo_drop_bit_of_nat [OF s] z)
qed

text \<open>
  C2 (amended): stack tagging of an allocation of s bytes with granule 16. With
  call-based instrumentation the code is the call
  \<open>__hwasan_tag_memory(AI, Tag, alignTo(s, 16))\<close>, for every s. Under inline
  tagging, for s below 2^31: with short granules disabled, the code sets
  ceil(s/16) shadow bytes to the tag; with short granules enabled, it sets
  floor(s/16) shadow bytes to the tag and, only when s is not a multiple of 16,
  stores the remainder s mod 16 in the next shadow byte and the tag in the last
  byte of the allocation's last granule, at object offset floor(s/16)*16 + 15.
\<close>

theorem tagAlloca_shadow:
  assumes "hw = initializeModule opts T ck rc"
  shows "(InstrumentWithCalls hw \<longrightarrow>
      tagAlloca hw sb AI Tag s = Inr (CallTagMemoryFunc AI (ucast Tag) (alignTo s 16))) \<and>
     (\<not> InstrumentWithCalls hw \<and> untagPointer hw AI = Inr AddrLong \<and> unat s < 2 ^ 31 \<longrightarrow>
      (\<not> UseShortGranules hw \<longrightarrow>
       tagAlloca hw sb AI Tag s =
         Inr (InlineStores
           (if unat s = 0 then []
            else [IRMemSet (memToShadow hw sb AddrLong) (ucast Tag)
                    (of_nat ((unat s + 15) div 16))]))) \<and>
      (UseShortGranules hw \<longrightarrow>
       tagAlloca hw sb AI Tag s =
         Inr (InlineStores
           ((if unat s div 16 \<noteq> 0
             then [IRMemSet (memToShadow hw sb AddrLong) (ucast Tag) (of_nat (unat s div 16))]
             else []) @
            (if unat s mod 16 \<noteq> 0
             then [IRStore (of_nat (unat s mod 16))
                     (memToShadow hw sb AddrLong + of_nat (unat s div 16)),
                   IRStore (ucast Tag) (AI + of_nat (unat s div 16 * 16 + 15))]
             else [])))))"
proof -
  have sc: "Scale (Mapping hw) = 4" using assms(1) by (simp add: Scale_initializeModule)
  have a: "InstrumentWithCalls hw \<longrightarrow>
      tagAlloca hw sb AI Tag s = Inr (CallTagMemoryFunc AI (ucast Tag) (alignTo s 16))"
    using tagAlloca_calls [OF sc, of sb AI Tag s] by blast
  have b: "\<not> InstrumentWithCalls hw \<and> untagPointer hw AI = Inr AddrLong \<and> unat s < 2 ^ 31 \<longrightarrow>
      (\<not> UseShortGranules hw \<longrightarrow>
       tagAlloca hw sb AI Tag s =
         Inr (InlineStores
           (if unat s = 0 then []
            else [IRMemSet (memToShadow hw sb AddrLong) (ucast Tag)
                    (of_nat ((unat s + 15) div 16))])))"
    using tagAlloca_full [OF sc, of s AI AddrLong sb Tag] by blast
  have c: "\<not> InstrumentWithCalls hw \<and> untagPointer hw AI = Inr AddrLong \<and> unat s < 2 ^ 31 \<longrightarrow>
      (UseShortGranules hw \<longrightarrow>
       tagAlloca hw sb AI Tag s =
         Inr (InlineStores
           ((if unat s div 16 \<noteq> 0
             then [IRMemSet (memToShadow hw sb AddrLong) (ucast Tag) (of_nat (unat s div 16))]
             else []) @
            (if unat s mod 16 \<noteq> 0
             then [IRStore (of_nat (unat s mod 16))
                     (memToShadow hw sb AddrLong + of_nat (unat s div 16)),
                   IRStore (ucast Tag) (AI + of_nat (unat s div 16 * 16 + 15))]
             else []))))"
    using tagAlloca_short [OF sc, of s AI AddrLong sb Tag] by blast
  from a b c show ?thesis by blast
qed

lemma hwAArch64_stack:
  "InstrumentWithCalls hwAArch64 = False" "UseShortGranules hwAArch64 = True"
  "Scale (Mapping hwAArch64) = 4" "Offset (Mapping hwAArch64) = - 1"
  by (simp_all add: hwAArch64_def initializeModule_def Let_def ShadowMapping_init_def
      AArch64Linux_def DefaultOptions_def cl_init_def shouldInstrumentWithCalls_def
      NewRuntime_def kDefaultShadowScale_def kDynamicShadowSentinel_def)

lemma hwNoShortGranules_stack:
  "InstrumentWithCalls hwNoShortGranules = False" "UseShortGranules hwNoShortGranules = False"
  "Scale (Mapping hwNoShortGranules) = 4" "Offset (Mapping hwNoShortGranules) = - 1"
  "UsePageAliases hwNoShortGranules = False" "CompileKernel hwNoShortGranules = False"
  "PointerTagShift hwNoShortGranules = 56" "TagMaskByte hwNoShortGranules = 0xFF"
  by (simp_all add: hwNoShortGranules_def initializeModule_def Let_def ShadowMapping_init_def
      AArch64Linux_def OptsNoShortGranules_def DefaultOptions_def cl_init_def
      shouldInstrumentWithCalls_def shouldUsePageAliases_def
      NewRuntime_def kDefaultShadowScale_def kDynamicShadowSentinel_def)

text \<open>
  C2, as stated, fails at the duplicated tag: for a 20-byte allocation the tag
  goes to object offset 31, the last byte of the second granule, and the byte at
  offset 19 is left as it was.
\<close>

theorem tagAlloca_offset_counterexample:
  "tagAlloca hwAArch64 0x100000 0x7000 0xAB 20 =
     Inr (InlineStores [IRMemSet 0x100700 0xAB 1, IRStore 4 0x100701, IRStore 0xAB 0x701F]) \<and>
   execMemOps (\<lambda>_. 0) [IRMemSet 0x100700 0xAB 1, IRStore 4 0x100701, IRStore 0xAB 0x701F]
     (0x7000 + 19) = 0 \<and>
   execMemOps (\<lambda>_. 0) [IRMemSet 0x100700 0xAB 1, IRStore 4 0x100701, IRStore 0xAB 0x701F]
     (0x7000 + 31) = 0xAB"
  by (simp add: tagAlloca_def Let_def hwAArch64_stack hwAArch64_simps untagPointer_def
      memToShadow_def getObjectAlignment_def alignTo_20 CreateConstGEP1_32_def
      execMemOps_def)

theorem tagAlloca_shadow_witness:
  "\<not> InstrumentWithCalls hwAArch64 \<and> untagPointer hwAArch64 0x7000 = Inr 0x7000 \<and>
   unat (20 :: 64 word) < 2 ^ 31 \<and> UseShortGranules hwAArch64 \<and>
   tagAlloca hwAArch64 0x100000 0x7000 0xAB 20 =
     Inr (InlineStores [IRMemSet 0x100700 0xAB 1, IRStore 4 0x100701, IRStore 0xAB 0x701F]) \<and>
   execMemOps (\<lambda>_. 0) [IRMemSet 0x100700 0xAB 1, IRStore 4 0x100701, IRStore 0xAB 0x701F]
     0x100700 = 0xAB \<and>
   execMemOps (\<lambda>_. 0) [IRMemSet 0x100700 0xAB 1, IRStore 4 0x100701, IRStore 0xAB 0x701F]
     0x100701 = 4 \<and>
   \<not> InstrumentWithCalls hwNoShortGranules \<and> \<not> UseShortGranules hwNoShortGranules \<and>
   untagPointer hwNoShortGranules 0x7000 = Inr 0x7000 \<and>
   tagAlloca hwNoShortGranules 0x100000 0x7000 0xAB 20 =
     Inr (InlineStores [IRMemSet 0x100700 0xAB 2]) \<and>
   InstrumentWithCalls hwX86_64 \<and>
   tagAlloca hwX86_64 0x100000 0x7000 0xAB 20 = Inr (CallTagMemoryFunc 0x7000 0xAB 32)"
proof -
  have u: "untagPointer hwAArch64 0x7000 = Inr 0x7000"
    by (simp add: untagPointer_def hwAArch64_simps)
  have u': "untagPointer hwNoShortGranules 0x7000 = Inr 0x7000"
    by (simp add: untagPointer_def hwNoShortGranules_stack)
  have s: "unat (20 :: 64 word) < 2 ^ 31" by simp
  have c: "\<not> InstrumentWithCalls hwAArch64" by (simp add: hwAArch64_stack)
  have c': "\<not> InstrumentWithCalls hwNoShortGranules" by (simp add: hwNoShortGranules_stack)
  have c'': "InstrumentWithCalls hwX86_64"
    by (simp add: hwX86_64_def initializeModule_def Let_def shouldInstrumentWithCalls_def
        DefaultOptions_def cl_init_def X86_64Linux_def)
  from tagAlloca_shadow [OF hwAArch64_def, where sb = "0x100000" and Tag = "0xAB"
      and AI = "0x7000" and AddrLong = "0x7000" and s = 20] c u s
  have a: "tagAlloca hwAArch64 0x100000 0x7000 0xAB 20 =
     Inr (InlineStores [IRMemSet 0x100700 0xAB 1, IRStore 4 0x100701, IRStore 0xAB 0x701F])"
    by (simp add: hwAArch64_stack memToShadow_def)
  from tagAlloca_shadow [OF hwNoShortGranules_def, where sb = "0x100000" and Tag = "0xAB"
      and AI = "0x7000" and AddrLong = "0x7000" and s = 20] c' u' s
  have b: "tagAlloca hwNoShortGranules 0x100000 0x7000 0xAB 20 =
     Inr (InlineStores [IRMemSet 0x100700 0xAB 2])"
    by (simp add: hwNoShortGranules_stack memToShadow_def)
  from tagAlloca_shadow [OF hwX86_64_def, where sb = "0x100000" and Tag = "0xAB"
      and AI = "0x7000" and s = 20] c''
  have d: "tagAlloca hwX86_64 0x100000 0x7000 0xAB 20 = Inr (CallTagMemoryFunc 0x7000 0xAB 32)"
    by (simp add: alignTo_20)
  show ?thesis using a b d u u' c c' c''
    by (simp add: hwAArch64_stack hwNoShortGranules_stack execMemOps_def)
qed

text \<open>
  The bound on s is that of the 32-bit index of \<open>CreateConstGEP1_32\<close>: for an
  allocation of 0x80000004 bytes the index \<open>AlignedSize - 1\<close> is sign-extended
  and the tag is stored below the allocation.
\<close>

lemma alignTo_large: "alignTo 0x80000004 16 = (0x80000010 :: 64 word)"
  by (simp add: alignTo_def word_div_def)

lemma tagAlloca_large_size:
  "tagAlloca hwAArch64 0x100000 0x7000 0xAB 0x80000004 =
     Inr (InlineStores [IRMemSet 0x100700 0xAB 0x8000000, IRStore 4 0x8100700,
                        IRStore 0xAB 0xFFFFFFFF8000700F]) \<and>
   0x7000 + (alignTo 0x80000004 16 - 1) = (0x8000700F :: 64 word)"
  by (simp add: tagAlloca_def Let_def hwAArch64_stack hwAArch64_simps untagPointer_def
      memToShadow_def getObjectAlignment_def alignTo_large CreateConstGEP1_32_def
      drop_bit_eq_div word_div_def word_mod_def)

subsection \<open>The inline check\<close>

lemma fifteen_mask: "(15 :: 64 word) = mask 4"
  by (simp add: mask_eq_exp_minus_1)

lemma unat_low4: "unat ((p :: 64 word) AND 15) = unat p mod 16"
proof -
  have "unat (p AND mask 4) = unat p mod 2 ^ 4"
    by (metis take_bit_eq_mask unsigned_take_bit_eq take_bit_eq_mod)
  then show ?thesis by (simp only: fifteen_mask) simp
qed

lemma unat_ucast_low4: "unat (ucast ((p :: 64 word) AND 15) :: 8 word) = unat p mod 16"
proof -
  have "unat p mod 16 < 16" by simp
  then have "unat p mod 16 < 256" by arith
  then show ?thesis by (simp add: unsigned_ucast_eq unat_low4 take_bit_eq_mod)
qed

lemma size_minus_1:
  assumes "idx < 5"
  shows "unat (word_of_int (2 ^ idx - 1) :: 8 word) = 2 ^ idx - 1" and "(2::nat) ^ idx - 1 \<le> 15"
proof -
  from assms consider "idx = 0" | "idx = 1" | "idx = 2" | "idx = 3" | "idx = 4" by arith
  then show "unat (word_of_int (2 ^ idx - 1) :: 8 word) = 2 ^ idx - 1"
    by cases simp_all
  from assms consider "idx = 0" | "idx = 1" | "idx = 2" | "idx = 3" | "idx = 4" by arith
  then show "(2::nat) ^ idx - 1 \<le> 15"
    by cases simp_all
qed

lemma unat_PtrLowBits:
  assumes "idx < 5"
  shows "unat ((ucast ((p :: 64 word) AND 15) :: 8 word) + word_of_int (2 ^ idx - 1)) =
         unat p mod 16 + (2 ^ idx - 1)"
proof -
  let ?a = "ucast (p AND 15) :: 8 word" and ?b = "word_of_int (2 ^ idx - 1) :: 8 word"
  have a: "unat ?a = unat p mod 16" by (rule unat_ucast_low4)
  have b: "unat ?b = 2 ^ idx - 1" by (rule size_minus_1 [OF assms])
  have "unat p mod 16 < 16" by simp
  with size_minus_1(2) [OF assms] have "unat p mod 16 + (2 ^ idx - 1) < 2 ^ LENGTH(8)" by simp
  then have "unat ?a + unat ?b < 2 ^ LENGTH(8)" by (simp only: a b)
  then have "unat (?a + ?b) = unat ?a + unat ?b" by (rule unat_add_lem [THEN iffD1])
  then show ?thesis by (simp only: a b)
qed

lemma trapAsm_cases:
  "trapAsm hw L i = Inr Asm \<Longrightarrow>
   getArch (TargetTriple hw) \<in> {x86_64, aarch64, aarch64_be, riscv64}"
  by (cases "getArch (TargetTriple hw)") (simp_all add: trapAsm_def)

lemma emit_inline_consistent:
  "(\<exists>e. emitMemAccessInline hw L w idx = Inl e) =
   (\<exists>e. instrumentMemAccessInline hw L w idx mem sb p = Inl e)"
  by (cases "trapAsm hw L (getAccessInfo hw L w idx)")
    (auto simp add: emitMemAccessInline_def instrumentMemAccessInline_def Let_def
      untagPointer_def)

text \<open>
  C3 (amended): in the inline check, when the memory tag differs from the
  pointer tag, the pointer tag is not the match-all tag (where one is
  configured), and the memory tag is at most 15, the check compares
  lowBits(address, 4) + (accessSize - 1) with the memory tag and executes the
  trap whenever that value is greater than or equal to the memory tag; below
  it, the check passes exactly when the byte at (address | 15) equals the
  pointer tag.
\<close>

theorem inline_check_short_granule:
  assumes run: "instrumentMemAccessInline hw L w idx mem sb p = Inr out"
    and u: "untagPointer hw p = Inr a"
    and mm: "ucast (drop_bit (PointerTagShift hw) p) \<noteq> mem (memToShadow hw sb a)"
    and ma: "\<forall>t. MatchAllTag hw = Some t \<longrightarrow> ucast (drop_bit (PointerTagShift hw) p) \<noteq> t"
    and sg: "mem (memToShadow hw sb a) \<le> 15"
    and idx: "idx < 5"
  shows "(unat (mem (memToShadow hw sb a)) \<le> unat p mod 16 + (2 ^ idx - 1) \<longrightarrow>
            (\<exists>Asm. out = Trap Asm (Recover hw))) \<and>
         (unat p mod 16 + (2 ^ idx - 1) < unat (mem (memToShadow hw sb a)) \<longrightarrow>
            (out = NoFault) = (mem (a OR 15) = ucast (drop_bit (PointerTagShift hw) p)))"
proof -
  let ?m = "mem (memToShadow hw sb a)"
  let ?lb = "(ucast (p AND 15) :: 8 word) + word_of_int (2 ^ idx - 1)"
  from run obtain Asm where asm: "trapAsm hw L (getAccessInfo hw L w idx) = Inr Asm"
    and pa: "\<not> UsePageAliases hw"
    by (cases "trapAsm hw L (getAccessInfo hw L w idx)")
      (auto simp add: instrumentMemAccessInline_def Let_def u split: if_splits)
  have tm: "(case MatchAllTag hw of None \<Rightarrow> True
      | Some m \<Rightarrow> (ucast (drop_bit (PointerTagShift hw) p) :: 8 word) \<noteq> m)"
    using ma by (cases "MatchAllTag hw") simp_all
  have ns: "\<not> 15 < ?m" using sg by (simp add: not_less)
  have oob: "(?m \<le> ?lb) = (unat ?m \<le> unat p mod 16 + (2 ^ idx - 1))"
    by (simp only: word_le_nat_alt unat_PtrLowBits [OF idx])
  have out: "out = (if ?m \<le> ?lb then Trap Asm (Recover hw)
                    else if ucast (drop_bit (PointerTagShift hw) p) \<noteq> mem (a OR 15)
                    then Trap Asm (Recover hw) else NoFault)"
    using run pa asm mm tm ns
    by (simp add: instrumentMemAccessInline_def Let_def u)
  show ?thesis unfolding out oob by auto
qed


lemma hwInline_simps:
  "UsePageAliases hwInline = False" "CompileKernel hwInline = False"
  "PointerTagShift hwInline = 56" "TagMaskByte hwInline = 0xFF"
  "MatchAllTag hwInline = None" "Recover hwInline = False"
  "Scale (Mapping hwInline) = 4" "Offset (Mapping hwInline) = - 1"
  "getArch (TargetTriple hwInline) = aarch64"
  "InstrumentWithCalls hwInline = False" "OutlinedChecks hwInline = False"
  by (simp_all add: hwInline_def initializeModule_def Let_def ShadowMapping_init_def
      AArch64Linux_def OptsInline_def DefaultOptions_def cl_init_def
      shouldInstrumentWithCalls_def shouldUsePageAliases_def initMatchAllTag_def
      kDefaultShadowScale_def kDynamicShadowSentinel_def isAArch64_def)

lemma hwInlineMatchAll_simps:
  "UsePageAliases hwInlineMatchAll = False" "CompileKernel hwInlineMatchAll = False"
  "PointerTagShift hwInlineMatchAll = 56" "TagMaskByte hwInlineMatchAll = 0xFF"
  "MatchAllTag hwInlineMatchAll = Some 0xFF" "Recover hwInlineMatchAll = False"
  "Scale (Mapping hwInlineMatchAll) = 4" "Offset (Mapping hwInlineMatchAll) = - 1"
  "getArch (TargetTriple hwInlineMatchAll) = aarch64"
  "InstrumentWithCalls hwInlineMatchAll = False" "OutlinedChecks hwInlineMatchAll = False"
  by (simp_all add: hwInlineMatchAll_def initializeModule_def Let_def ShadowMapping_init_def
      AArch64Linux_def OptsInlineMatchAll_def DefaultOptions_def cl_init_def
      shouldInstrumentWithCalls_def shouldUsePageAliases_def initMatchAllTag_def
      kDefaultShadowScale_def kDynamicShadowSentinel_def isAArch64_def)

text \<open>
  C3, read literally, fails where the pointer tag is the match-all tag: the
  memory tag 5 differs from the pointer tag 0xFF, is not the match-all tag
  and is a short-granule value, and the low bits 8 are beyond it, yet the check
  passes, because the generated comparison with the match-all tag is on the
  pointer tag.
\<close>

theorem inline_check_match_all_counterexample:
  "MatchAllTag hwInlineMatchAll = Some 0xFF \<and>
   untagPointer hwInlineMatchAll 0xFF00000000007008 = Inr 0x7008 \<and>
   ShortGranuleMemory (memToShadow hwInlineMatchAll 0x100000 0x7008) = 5 \<and>
   (ucast (drop_bit (PointerTagShift hwInlineMatchAll) (0xFF00000000007008 :: 64 word)) :: 8 word)
     = 0xFF \<and>
   unat (0xFF00000000007008 :: 64 word) mod 16 + (2 ^ 0 - 1) = 8 \<and>
   instrumentMemAccessInline hwInlineMatchAll SampleAccessInfo False 0 ShortGranuleMemory
     0x100000 0xFF00000000007008 = Inr NoFault"
  by (simp add: instrumentMemAccessInline_def Let_def hwInlineMatchAll_simps untagPointer_def
      memToShadow_def ShortGranuleMemory_def trapAsm_def)

theorem inline_check_short_granule_witness:
  "instrumentMemAccessInline hwInline SampleAccessInfo False 0 ShortGranuleMemory
     0x100000 0x2A00000000007005 = Inr (Trap (Brk 0x900) False) \<and>
   untagPointer hwInline 0x2A00000000007005 = Inr 0x7005 \<and>
   ShortGranuleMemory (memToShadow hwInline 0x100000 0x7005) = 5 \<and>
   MatchAllTag hwInline = None \<and>
   unat (0x2A00000000007005 :: 64 word) mod 16 + (2 ^ 0 - 1) = 5 \<and>
   Recover hwInline = False"
proof -
  have run: "instrumentMemAccessInline hwInline SampleAccessInfo False 0 ShortGranuleMemory
     0x100000 0x2A00000000007005 = Inr (Trap (Brk 0x900) False)"
    by (simp add: instrumentMemAccessInline_def Let_def hwInline_simps untagPointer_def
        memToShadow_def ShortGranuleMemory_def trapAsm_def getAccessInfo_def
        SampleAccessInfo_def)
  have u: "untagPointer hwInline 0x2A00000000007005 = Inr 0x7005"
    by (simp add: untagPointer_def hwInline_simps)
  have m: "ShortGranuleMemory (memToShadow hwInline 0x100000 0x7005) = 5"
    by (simp add: memToShadow_def hwInline_simps ShortGranuleMemory_def)
  have mm: "ucast (drop_bit (PointerTagShift hwInline) (0x2A00000000007005 :: 64 word)) \<noteq>
      ShortGranuleMemory (memToShadow hwInline 0x100000 0x7005)"
    by (simp add: m hwInline_simps)
  have ma: "\<forall>t. MatchAllTag hwInline = Some t \<longrightarrow>
      ucast (drop_bit (PointerTagShift hwInline) (0x2A00000000007005 :: 64 word)) \<noteq> t"
    by (simp add: hwInline_simps)
  have sg: "ShortGranuleMemory (memToShadow hwInline 0x100000 0x7005) \<le> 15"
    by (simp add: m)
  from inline_check_short_granule [OF run u mm ma sg, of ]
  have "\<exists>Asm. Trap (Brk 0x900) False = Trap Asm (Recover hwInline)"
    by (simp add: m)
  then have "Recover hwInline = False" by auto
  with run u m show ?thesis by (simp add: hwInline_simps)
qed

subsection \<open>Masked operands\<close>

text \<open>
  C10: for an operand that carries a mask, instrumentMemAccess returns false
  and inserts nothing: no callback, no check, no trap sequence, and the pointer
  operand is not replaced.
\<close>

theorem instrumentMemAccess_masked:
  "MaybeMask O' \<noteq> None \<Longrightarrow> instrumentMemAccess hw L O' = Inr (False, [])"
  by (simp add: instrumentMemAccess_def)

lemma countr_zero_16: "countr_zero 16 = 4"
  by (simp add: countr_zero_def upt_rec bit_numeral_Bit0_iff bit_numeral_simps)

lemma unmasked_load_is_checked:
  "instrumentMemAccess hwInline SampleAccessInfo (MaskedLoad\<lparr>MaybeMask := None\<rparr>) =
     Inr (True, [InlineCheck False 4 (Brk 0x904)])"
  by (simp add: instrumentMemAccess_def MaskedLoad_def Let_def isPowerOf2_64_def
      kNumberOfAccessSizes_def getObjectAlignment_def hwInline_simps TypeSizeToSizeIndex_def
      countr_zero_16 emitMemAccessInline_def trapAsm_def getAccessInfo_def
      SampleAccessInfo_def untagPointerOperand_def isAArch64_def word_div_def)

theorem instrumentMemAccess_masked_witness:
  "MaybeMask MaskedLoad \<noteq> None \<and>
   instrumentMemAccess hwInline SampleAccessInfo MaskedLoad = Inr (False, [])"
  using instrumentMemAccess_masked [of MaskedLoad hwInline SampleAccessInfo]
  by (simp add: MaskedLoad_def)

subsection \<open>Functions that are not instrumented\<close>

lemma attributed_push_back:
  "attributed fs m \<Longrightarrow> j < length fs \<Longrightarrow> hasSanitizeHWAddress (fs ! j) \<Longrightarrow>
   attributed fs (push_back k j m)"
  by (induction k j m rule: push_back.induct) (auto simp add: attributed_def)

lemma attributed_group:
  "attributed (pre @ Fs) m \<Longrightarrow> length pre = i \<Longrightarrow>
   attributed (pre @ Fs) (groupByPersonality i Fs m)"
proof (induction Fs arbitrary: i m pre)
  case Nil
  then show ?case by simp
next
  case (Cons F Fs)
  have n: "(pre @ F # Fs) ! i = F" and l: "i < length (pre @ F # Fs)"
    using Cons.prems(2) by auto
  let ?m = "if isDeclaration F \<or> \<not> hasSanitizeHWAddress F then m
        else if getPersonalityFn F \<noteq> None then push_back (getPersonalityFn F) i m
        else if \<not> hasNoUnwind F then push_back None i m
        else m"
  have a: "attributed (pre @ F # Fs) ?m"
    using Cons.prems(1) attributed_push_back [of "pre @ F # Fs" m i] n l by auto
  have "attributed ((pre @ [F]) @ Fs) (groupByPersonality (Suc i) Fs ?m)"
    by (rule Cons.IH) (use a Cons.prems(2) in simp_all)
  then show ?case by simp
qed

lemma attributed_groupByPersonality: "attributed fs (groupByPersonality 0 fs [])"
  using attributed_group [of "[]" fs "[]" 0] by (simp add: attributed_def)

lemma length_setPersonalityFns [simp]: "length (setPersonalityFns T is fs) = length fs"
  by (induction "is" arbitrary: fs) simp_all

lemma setPersonalityFns_other:
  "j \<notin> set is \<Longrightarrow> setPersonalityFns T is fs ! j = fs ! j"
  by (induction "is" arbitrary: fs) auto

lemma samePersonality_refl [simp]: "sameExceptPersonality F F"
  by (simp add: sameExceptPersonality_def)

lemma samePersonality_update [simp]:
  "sameExceptPersonality F G \<Longrightarrow> sameExceptPersonality F (G\<lparr>getPersonalityFn := p\<rparr>)"
  by (simp add: sameExceptPersonality_def)

lemma setPersonalityFns_same:
  "sameExceptPersonality F (fs ! j) \<Longrightarrow> sameExceptPersonality F (setPersonalityFns T is fs ! j)"
proof (induction "is" arbitrary: fs)
  case Nil
  then show ?case by simp
next
  case (Cons i "is")
  let ?fs = "fs[i := (fs ! i)\<lparr>getPersonalityFn := Some T\<rparr>]"
  have "sameExceptPersonality F (?fs ! j)"
  proof (cases "i < length fs")
    case True
    then show ?thesis using Cons.prems by (cases "j = i") simp_all
  next
    case False
    then show ?thesis using Cons.prems by (simp add: list_update_beyond)
  qed
  from Cons.IH [OF this] show ?case by simp
qed

lemma length_installThunks: "length fs \<le> length (installThunks m fs)"
proof (induction m arbitrary: fs)
  case Nil
  then show ?case by simp
next
  case (Cons e m)
  obtain P Fs where e: "e = (P, Fs)" by (cases e)
  from Cons [of "setPersonalityFns (ThunkRef P) Fs (fs @ [ThunkFn P])"] e
  show ?case by simp
qed

lemma installThunks_other:
  "j < length fs \<Longrightarrow> \<forall>e\<in>set m. j \<notin> set (snd e) \<Longrightarrow> installThunks m fs ! j = fs ! j"
proof (induction m arbitrary: fs)
  case Nil
  then show ?case by simp
next
  case (Cons e m)
  obtain P Fs where e: "e = (P, Fs)" by (cases e)
  let ?fs = "setPersonalityFns (ThunkRef P) Fs (fs @ [ThunkFn P])"
  have j: "j < length ?fs" using Cons.prems(1) by simp
  have n: "j \<notin> set Fs" and r: "\<forall>e\<in>set m. j \<notin> set (snd e)" using Cons.prems(2) e by auto
  have "installThunks m ?fs ! j = ?fs ! j" by (rule Cons.IH [OF j r])
  also have "\<dots> = (fs @ [ThunkFn P]) ! j" by (rule setPersonalityFns_other [OF n])
  also have "\<dots> = fs ! j" using Cons.prems(1) by (simp add: nth_append)
  finally show ?case using e by simp
qed

lemma installThunks_same:
  "j < length fs \<Longrightarrow> sameExceptPersonality F (fs ! j) \<Longrightarrow>
   sameExceptPersonality F (installThunks m fs ! j)"
proof (induction m arbitrary: fs)
  case Nil
  then show ?case by simp
next
  case (Cons e m)
  obtain P Fs where e: "e = (P, Fs)" by (cases e)
  let ?fs = "setPersonalityFns (ThunkRef P) Fs (fs @ [ThunkFn P])"
  have j: "j < length ?fs" using Cons.prems(1) by simp
  have "sameExceptPersonality F ((fs @ [ThunkFn P]) ! j)"
    using Cons.prems by (simp add: nth_append)
  then have "sameExceptPersonality F (?fs ! j)" by (rule setPersonalityFns_same)
  from Cons.IH [OF j this] e show ?case by simp
qed

lemma getOrInsertFunction_nth:
  "j < length fs \<Longrightarrow> getOrInsertFunction n fs ! j = fs ! j"
  by (simp add: getOrInsertFunction_def nth_append)

lemma length_getOrInsertFunction: "length fs \<le> length (getOrInsertFunction n fs)"
  by (simp add: getOrInsertFunction_def)

lemma declarations_nth:
  assumes "j < length fs"
  shows "getOrInsertFunction a (getOrInsertFunction b (getOrInsertFunction c fs)) ! j = fs ! j"
    and "j < length (getOrInsertFunction a (getOrInsertFunction b (getOrInsertFunction c fs)))"
proof -
  have 1: "j < length (getOrInsertFunction c fs)"
    using assms length_getOrInsertFunction [of fs c] by simp
  have 2: "j < length (getOrInsertFunction b (getOrInsertFunction c fs))"
    using 1 length_getOrInsertFunction [of "getOrInsertFunction c fs" b] by simp
  show "j < length (getOrInsertFunction a (getOrInsertFunction b (getOrInsertFunction c fs)))"
    using 2 length_getOrInsertFunction [of "getOrInsertFunction b (getOrInsertFunction c fs)" a]
    by simp
  show "getOrInsertFunction a (getOrInsertFunction b (getOrInsertFunction c fs)) ! j = fs ! j"
    by (simp only: getOrInsertFunction_nth [OF 2] getOrInsertFunction_nth [OF 1]
        getOrInsertFunction_nth [OF assms])
qed

lemma instrumentPersonalityFunctions_length:
  assumes "j < length fs"
  shows "j < length (instrumentPersonalityFunctions fs)"
proof (cases "groupByPersonality 0 fs [] = []")
  case True
  then show ?thesis using assms by (simp add: instrumentPersonalityFunctions_def)
next
  case False
  let ?fs = "getOrInsertFunction ''_Unwind_GetCFA''
      (getOrInsertFunction ''_Unwind_GetGR''
        (getOrInsertFunction ''__hwasan_personality_wrapper'' fs))"
  have "j < length ?fs" by (rule declarations_nth(2) [OF assms])
  also have "length ?fs \<le> length (installThunks (groupByPersonality 0 fs []) ?fs)"
    by (rule length_installThunks)
  finally show ?thesis using False by (simp add: instrumentPersonalityFunctions_def Let_def)
qed

lemma same_fields:
  assumes "sameExceptPersonality F G"
  shows "body G = body F" and "fn_getName G = fn_getName F"
    and "hasSanitizeHWAddress G = hasSanitizeHWAddress F"
proof -
  from assms have e: "G\<lparr>getPersonalityFn := None\<rparr> = F\<lparr>getPersonalityFn := None\<rparr>"
    by (simp add: sameExceptPersonality_def)
  have "body (G\<lparr>getPersonalityFn := None\<rparr>) = body (F\<lparr>getPersonalityFn := None\<rparr>)"
    by (simp only: e)
  then show "body G = body F" by simp
  have "fn_getName (G\<lparr>getPersonalityFn := None\<rparr>) = fn_getName (F\<lparr>getPersonalityFn := None\<rparr>)"
    by (simp only: e)
  then show "fn_getName G = fn_getName F" by simp
  have "hasSanitizeHWAddress (G\<lparr>getPersonalityFn := None\<rparr>) =
      hasSanitizeHWAddress (F\<lparr>getPersonalityFn := None\<rparr>)"
    by (simp only: e)
  then show "hasSanitizeHWAddress G = hasSanitizeHWAddress F" by simp
qed

lemma instrumentPersonalityFunctions_same:
  assumes j: "j < length fs"
  shows "sameExceptPersonality (fs ! j) (instrumentPersonalityFunctions fs ! j)"
proof (cases "groupByPersonality 0 fs [] = []")
  case True
  then show ?thesis by (simp add: instrumentPersonalityFunctions_def)
next
  case False
  let ?fs = "getOrInsertFunction ''_Unwind_GetCFA''
      (getOrInsertFunction ''_Unwind_GetGR''
        (getOrInsertFunction ''__hwasan_personality_wrapper'' fs))"
  have "sameExceptPersonality (fs ! j) (?fs ! j)" by (simp add: declarations_nth(1) [OF j])
  from installThunks_same [OF declarations_nth(2) [OF j] this] False
  show ?thesis by (simp add: instrumentPersonalityFunctions_def Let_def)
qed

lemma instrumentPersonalityFunctions_skip:
  assumes j: "j < length fs" and a: "\<not> hasSanitizeHWAddress (fs ! j)"
  shows "instrumentPersonalityFunctions fs ! j = fs ! j"
proof (cases "groupByPersonality 0 fs [] = []")
  case True
  then show ?thesis by (simp add: instrumentPersonalityFunctions_def)
next
  case False
  let ?fs = "getOrInsertFunction ''_Unwind_GetCFA''
      (getOrInsertFunction ''_Unwind_GetGR''
        (getOrInsertFunction ''__hwasan_personality_wrapper'' fs))"
  have n: "\<forall>e\<in>set (groupByPersonality 0 fs []). j \<notin> set (snd e)"
    using attributed_groupByPersonality [of fs] a by (auto simp add: attributed_def)
  have "installThunks (groupByPersonality 0 fs []) ?fs ! j = ?fs ! j"
    by (rule installThunks_other [OF declarations_nth(2) [OF j] n])
  then show ?thesis using False
    by (simp add: instrumentPersonalityFunctions_def Let_def declarations_nth(1) [OF j])
qed

text \<open>
  C9: a function without the sanitize-hwaddress attribute, and the module
  constructor of the pass, is returned by sanitizeFunction as it is; the
  personality-thunk protocol leaves every function without the attribute as it
  is and changes no function body; so after the thunk protocol followed by the
  per-function processing (\<open>run\<close>) such a function (for the constructor:
  its body) is unchanged.
\<close>

theorem uninstrumented_function_unchanged:
  "(\<not> hasSanitizeHWAddress F \<or> Some (fn_getName F) = HwasanCtorFunction \<longrightarrow>
      sanitizeFunction instrument HwasanCtorFunction F = F) \<and>
   (j < length fs \<and> \<not> hasSanitizeHWAddress (fs ! j) \<longrightarrow>
      instrumentPersonalityFunctions fs ! j = fs ! j \<and>
      run instrument HwasanCtorFunction personality fs ! j = fs ! j) \<and>
   (j < length fs \<longrightarrow>
      body (instrumentPersonalityFunctions fs ! j) = body (fs ! j)) \<and>
   (j < length fs \<and> Some (fn_getName (fs ! j)) = HwasanCtorFunction \<longrightarrow>
      body (run instrument HwasanCtorFunction personality fs ! j) = body (fs ! j))"
proof -
  have 1: "\<not> hasSanitizeHWAddress F \<or> Some (fn_getName F) = HwasanCtorFunction \<longrightarrow>
      sanitizeFunction instrument HwasanCtorFunction F = F"
    by (simp add: sanitizeFunction_def)
  have 2: "j < length fs \<and> \<not> hasSanitizeHWAddress (fs ! j) \<longrightarrow>
      instrumentPersonalityFunctions fs ! j = fs ! j \<and>
      run instrument HwasanCtorFunction personality fs ! j = fs ! j"
  proof (intro impI, elim conjE)
    assume j: "j < length fs" and a: "\<not> hasSanitizeHWAddress (fs ! j)"
    have p: "instrumentPersonalityFunctions fs ! j = fs ! j"
      by (rule instrumentPersonalityFunctions_skip [OF j a])
    have l: "j < length (instrumentPersonalityFunctions fs)"
      by (rule instrumentPersonalityFunctions_length [OF j])
    have "run instrument HwasanCtorFunction personality fs ! j = fs ! j"
      using j a p l by (cases personality) (simp_all add: run_def sanitizeFunction_def)
    with p show "instrumentPersonalityFunctions fs ! j = fs ! j \<and>
      run instrument HwasanCtorFunction personality fs ! j = fs ! j" by simp
  qed
  have 3: "j < length fs \<longrightarrow> body (instrumentPersonalityFunctions fs ! j) = body (fs ! j)"
    using same_fields(1) [OF instrumentPersonalityFunctions_same, of j fs] by simp
  have 4: "j < length fs \<and> Some (fn_getName (fs ! j)) = HwasanCtorFunction \<longrightarrow>
      body (run instrument HwasanCtorFunction personality fs ! j) = body (fs ! j)"
  proof (intro impI, elim conjE)
    assume j: "j < length fs" and c: "Some (fn_getName (fs ! j)) = HwasanCtorFunction"
    have l: "j < length (instrumentPersonalityFunctions fs)"
      by (rule instrumentPersonalityFunctions_length [OF j])
    have n: "fn_getName (instrumentPersonalityFunctions fs ! j) = fn_getName (fs ! j)"
      by (rule same_fields(2) [OF instrumentPersonalityFunctions_same [OF j]])
    have b: "body (instrumentPersonalityFunctions fs ! j) = body (fs ! j)"
      by (rule same_fields(1) [OF instrumentPersonalityFunctions_same [OF j]])
    show "body (run instrument HwasanCtorFunction personality fs ! j) = body (fs ! j)"
      using j c l n b by (cases personality) (simp_all add: run_def sanitizeFunction_def)
  qed
  from 1 2 3 4 show ?thesis by blast
qed


lemma SampleFunctions_personality:
  "instrumentPersonalityFunctions SampleFunctions =
     [PlainFunction,
      SanitizedFunction\<lparr>getPersonalityFn := Some (ThunkRef (Some GxxPersonality))\<rparr>,
      CtorFunction,
      \<lparr>fn_getName = ''__hwasan_personality_wrapper'', fn_getLinkage = ExternalLinkage,
        fn_getVisibility = DefaultVisibility, fn_getComdat = None,
        hasSanitizeHWAddress = False, hasNoUnwind = False, isDeclaration = True,
        getPersonalityFn = None, body = []\<rparr>,
      \<lparr>fn_getName = ''_Unwind_GetGR'', fn_getLinkage = ExternalLinkage,
        fn_getVisibility = DefaultVisibility, fn_getComdat = None,
        hasSanitizeHWAddress = False, hasNoUnwind = False, isDeclaration = True,
        getPersonalityFn = None, body = []\<rparr>,
      \<lparr>fn_getName = ''_Unwind_GetCFA'', fn_getLinkage = ExternalLinkage,
        fn_getVisibility = DefaultVisibility, fn_getComdat = None,
        hasSanitizeHWAddress = False, hasNoUnwind = False, isDeclaration = True,
        getPersonalityFn = None, body = []\<rparr>,
      ThunkFn (Some GxxPersonality)]"
  by (simp add: instrumentPersonalityFunctions_def SampleFunctions_def PlainFunction_def
      SanitizedFunction_def CtorFunction_def Let_def getOrInsertFunction_def
      kHwasanModuleCtorName_def)

theorem uninstrumented_function_unchanged_witness:
  "\<not> hasSanitizeHWAddress PlainFunction \<and> 0 < length SampleFunctions \<and>
   SampleFunctions ! 0 = PlainFunction \<and>
   sanitizeFunction markBody (Some kHwasanModuleCtorName) PlainFunction = PlainFunction \<and>
   instrumentPersonalityFunctions SampleFunctions ! 0 = PlainFunction \<and>
   run markBody (Some kHwasanModuleCtorName) True SampleFunctions ! 0 = PlainFunction \<and>
   body (run markBody (Some kHwasanModuleCtorName) True SampleFunctions ! 2) =
     [OriginalInstruction 2] \<and>
   body (run markBody (Some kHwasanModuleCtorName) True SampleFunctions ! 1) =
     [OriginalInstruction 99, OriginalInstruction 0, OriginalInstruction 1] \<and>
   getPersonalityFn (run markBody (Some kHwasanModuleCtorName) True SampleFunctions ! 1) =
     Some (ThunkRef (Some GxxPersonality))"
proof -
  have a: "\<not> hasSanitizeHWAddress PlainFunction" by (simp add: PlainFunction_def)
  have n: "SampleFunctions ! 0 = PlainFunction" "0 < length SampleFunctions"
    "SampleFunctions ! 2 = CtorFunction" "2 < length SampleFunctions"
    by (simp_all add: SampleFunctions_def)
  have c: "Some (fn_getName (SampleFunctions ! 2)) = Some kHwasanModuleCtorName"
    by (simp add: n CtorFunction_def)
  from uninstrumented_function_unchanged
    [of PlainFunction "Some kHwasanModuleCtorName" markBody 0 SampleFunctions True] a n
  have 1: "sanitizeFunction markBody (Some kHwasanModuleCtorName) PlainFunction = PlainFunction"
    and 2: "instrumentPersonalityFunctions SampleFunctions ! 0 = PlainFunction"
    and 3: "run markBody (Some kHwasanModuleCtorName) True SampleFunctions ! 0 = PlainFunction"
    by simp_all
  from uninstrumented_function_unchanged
    [of PlainFunction "Some kHwasanModuleCtorName" markBody 2 SampleFunctions True] n c
  have 4: "body (run markBody (Some kHwasanModuleCtorName) True SampleFunctions ! 2) =
     [OriginalInstruction 2]"
    by (simp add: CtorFunction_def)
  have 5: "run markBody (Some kHwasanModuleCtorName) True SampleFunctions ! 1 =
      markBody (SanitizedFunction\<lparr>getPersonalityFn := Some (ThunkRef (Some GxxPersonality))\<rparr>)"
    by (simp add: run_def SampleFunctions_personality sanitizeFunction_def
        SanitizedFunction_def PlainFunction_def kHwasanModuleCtorName_def)
  have 6: "body (run markBody (Some kHwasanModuleCtorName) True SampleFunctions ! 1) =
     [OriginalInstruction 99, OriginalInstruction 0, OriginalInstruction 1]"
    unfolding 5 by (simp add: markBody_def SanitizedFunction_def PlainFunction_def)
  have 7: "getPersonalityFn (run markBody (Some kHwasanModuleCtorName) True SampleFunctions ! 1) =
     Some (ThunkRef (Some GxxPersonality))"
    unfolding 5 by (simp add: markBody_def SanitizedFunction_def PlainFunction_def)
  show ?thesis using a n(1,2) 1 2 3 4 6 7 by (simp only: simp_thms)
qed

subsection \<open>Supplementary facts on stack tagging and the tag codec\<close>

lemma of_nat_less_small:
  assumes "i < 2 ^ 64" and "q < 2 ^ 64"
  shows "((of_nat i :: 64 word) < of_nat q) = (i < q)"
  using assms by (simp add: of_nat_word_less_iff take_bit_nat_eq_self)

lemma of_nat_eq_small:
  assumes "i < 2 ^ 64" and "q < 2 ^ 64"
  shows "((of_nat i :: 64 word) = of_nat q) = (i = q)"
  using assms by (simp add: word_of_nat_eq_iff take_bit_nat_eq_self)

lemma execMemOps_short_granule:
  fixes sp tagAddr :: "64 word"
  assumes q: "q < 2 ^ 64"
  shows "(\<forall>i<q. sp + of_nat i \<noteq> tagAddr \<longrightarrow>
            execMemOps mem ((if q \<noteq> 0 then [IRMemSet sp t (of_nat q)] else []) @
              [IRStore r (sp + of_nat q), IRStore t tagAddr]) (sp + of_nat i) = t) \<and>
         (sp + of_nat q \<noteq> tagAddr \<longrightarrow>
            execMemOps mem ((if q \<noteq> 0 then [IRMemSet sp t (of_nat q)] else []) @
              [IRStore r (sp + of_nat q), IRStore t tagAddr]) (sp + of_nat q) = r) \<and>
         execMemOps mem ((if q \<noteq> 0 then [IRMemSet sp t (of_nat q)] else []) @
              [IRStore r (sp + of_nat q), IRStore t tagAddr]) tagAddr = t"
proof -
  have a: "\<And>i. i < q \<Longrightarrow> (of_nat i :: 64 word) < of_nat q"
  proof -
    fix i assume i: "i < q"
    with q have "i < 2 ^ 64" by simp
    from of_nat_less_small [OF this q] i show "(of_nat i :: 64 word) < of_nat q" by simp
  qed
  have b: "\<And>i. i < q \<Longrightarrow> (of_nat i :: 64 word) \<noteq> of_nat q"
    using a by fastforce
  show ?thesis using a b by (auto simp add: execMemOps_def)
qed


text \<open>
  The memory after the stores of a short granule: the first floor(s/16) shadow
  bytes hold the tag, the next one the remainder, and the last byte of the
  allocation's last granule holds the tag (where the three do not overlap).
\<close>

lemma tagAlloca_short_memory:
  assumes hw: "hw = initializeModule opts T ck rc" and c: "\<not> InstrumentWithCalls hw"
    and g: "UseShortGranules hw" and u: "untagPointer hw AI = Inr AddrLong"
    and s: "unat s < 2 ^ 31" and r: "unat s mod 16 \<noteq> 0"
    and run: "tagAlloca hw sb AI Tag s = Inr (InlineStores ops)"
  shows "(\<forall>i<unat s div 16.
            memToShadow hw sb AddrLong + of_nat i \<noteq> AI + of_nat (unat s div 16 * 16 + 15) \<longrightarrow>
            execMemOps mem ops (memToShadow hw sb AddrLong + of_nat i) = ucast Tag) \<and>
         (memToShadow hw sb AddrLong + of_nat (unat s div 16) \<noteq>
            AI + of_nat (unat s div 16 * 16 + 15) \<longrightarrow>
            execMemOps mem ops (memToShadow hw sb AddrLong + of_nat (unat s div 16)) =
              of_nat (unat s mod 16)) \<and>
         execMemOps mem ops (AI + of_nat (unat s div 16 * 16 + 15)) = ucast Tag"
proof -
  have sc: "Scale (Mapping hw) = 4" using hw by (simp add: Scale_initializeModule)
  have q: "unat s div 16 < 2 ^ 64"
  proof -
    have "unat s div 16 \<le> unat s" by simp
    also have "unat s < 2 ^ 31" by (rule s)
    also have "(2::nat) ^ 31 < 2 ^ 64" by simp
    finally show ?thesis .
  qed
  have "ops = (if unat s div 16 \<noteq> 0
         then [IRMemSet (memToShadow hw sb AddrLong) (ucast Tag) (of_nat (unat s div 16))]
         else []) @
        [IRStore (of_nat (unat s mod 16)) (memToShadow hw sb AddrLong + of_nat (unat s div 16)),
         IRStore (ucast Tag) (AI + of_nat (unat s div 16 * 16 + 15))]"
    using tagAlloca_short [OF sc c g s u, of sb Tag] run r by simp
  then show ?thesis
    using execMemOps_short_granule [OF q, of "memToShadow hw sb AddrLong"
        "AI + of_nat (unat s div 16 * 16 + 15)" mem "ucast Tag" "of_nat (unat s mod 16)"]
    by simp
qed

lemma drop_bit_56_byte: "drop_bit 56 (sp :: 64 word) AND mask 8 = drop_bit 56 sp"
  by (rule bit_word_eqI) (auto simp add: bit_simps dest: bit_imp_le_length)

text \<open>The tag that \<open>getUARTag\<close> takes from the stack pointer is its tag field.\<close>

lemma getUARTag_tagField:
  assumes "hw = initializeModule opts T ck rc"
  shows "getUARTag hw sp = tagField hw sp"
proof -
  from shift_mask_cases [of opts T ck rc] assms
  consider "PointerTagShift hw = 57" "TagMaskByte hw = 0x3F"
    | "PointerTagShift hw = 56" "TagMaskByte hw = 0xFF"
    by auto
  then show ?thesis
  proof cases
    case 1
    then show ?thesis by (simp add: getUARTag_def tagField_def applyTagMask_def)
  next
    case 2
    show ?thesis
      unfolding getUARTag_def tagField_def applyTagMask_def 2 ff_mask
      using drop_bit_56_byte [of sp] by simp
  qed
qed

text \<open>
  In kernel mode on x86_64 the AND of \<open>tagPointer\<close> clears bit 63 of a kernel
  address, which \<open>untagPointer\<close> does not set again.
\<close>

lemma tag_untag_x86_64_kernel:
  "tagPointer (initializeModule DefaultOptions X86_64Linux True False) (- 1) 0 =
     Inr 0x01FFFFFFFFFFFFFF \<and>
   untagPointer (initializeModule DefaultOptions X86_64Linux True False) 0x01FFFFFFFFFFFFFF =
     Inr 0x7FFFFFFFFFFFFFFF \<and>
   untagPointer (initializeModule DefaultOptions X86_64Linux True False) (- 1) = Inr (- 1)"
  by (simp add: tagPointer_def untagPointer_def initializeModule_def Let_def X86_64Linux_def
      DefaultOptions_def cl_init_def shouldUsePageAliases_def)

end
